theory Spec2Isabelle
  imports Main "HOL-Library.Word"
begin

section \<open>JavaScript values and strings\<close>

text \<open>
  A JavaScript string is a sequence of UTF-16 code units; \<open>length\<close>, \<open>substring\<close>,
  \<open>trim\<close> and the regular expressions of the program (none carries the \<open>u\<close> flag)
  all work on code units.
\<close>

type_synonym cu = "16 word"
type_synonym jstr = "cu list"

definition js :: "string \<Rightarrow> jstr" where
  "js s = map of_char s"

text \<open>
  The values a parsed JSON body can hold in a field, and \<open>undefined\<close> for a field
  that is absent. Arrays and objects are one constructor: the program only tests
  their truthiness and calls string methods on them, which they do not have.
  Of a number only its being zero is ever observed.
\<close>

datatype jsval = JUndefined | JNull | JBool bool | JNum int | JStr jstr | JObject

fun truthy :: "jsval \<Rightarrow> bool" where
  "truthy JUndefined = False"
| "truthy JNull = False"
| "truthy (JBool b) = b"
| "truthy (JNum n) = (n \<noteq> 0)"
| "truthy (JStr s) = (s \<noteq> [])"
| "truthy JObject = True"

fun is_string :: "jsval \<Rightarrow> bool" where
  "is_string (JStr s) = True"
| "is_string _ = False"

fun str_of :: "jsval \<Rightarrow> jstr" where
  "str_of (JStr s) = s"
| "str_of _ = []"

subsection \<open>Character classes\<close>

text \<open>
  \<open>\s\<close> and \<open>String.prototype.trim\<close> use the same set: WhiteSpace and LineTerminator
  of ECMAScript (TAB, LF, VT, FF, CR, SP, NBSP, U+1680, U+2000..U+200A, LS, PS, U+202F,
  U+205F, U+3000, U+FEFF).
\<close>

definition is_space :: "cu \<Rightarrow> bool" where
  "is_space c \<longleftrightarrow>
     c = 0x09 \<or> c = 0x0A \<or> c = 0x0B \<or> c = 0x0C \<or> c = 0x0D \<or> c = 0x20 \<or> c = 0xA0 \<or>
     c = 0x1680 \<or> (0x2000 \<le> c \<and> c \<le> 0x200A) \<or> c = 0x2028 \<or> c = 0x2029 \<or>
     c = 0x202F \<or> c = 0x205F \<or> c = 0x3000 \<or> c = 0xFEFF"

text \<open>\<open>\w\<close> is \<open>[A-Za-z0-9_]\<close>.\<close>

definition is_word :: "cu \<Rightarrow> bool" where
  "is_word c \<longleftrightarrow>
     (0x41 \<le> c \<and> c \<le> 0x5A) \<or> (0x61 \<le> c \<and> c \<le> 0x7A) \<or> (0x30 \<le> c \<and> c \<le> 0x39) \<or> c = 0x5F"

text \<open>
  Canonicalize of the \<open>i\<close> flag without \<open>u\<close>: the upper case of the code unit, except
  that a code unit from 128 on is never mapped below 128. The patterns of this program
  hold ASCII only, so the comparison of canonical forms is decided by the ASCII part of
  the mapping, which is all that is written out here.
\<close>

definition canonicalize :: "cu \<Rightarrow> cu" where
  "canonicalize c = (if 0x61 \<le> c \<and> c \<le> 0x7A then c - 0x20 else c)"

subsection \<open>The regular expressions of the program\<close>

text \<open>
  The patterns that occur are sequences of single characters, character classes and
  \<open>*\<close>/\<open>+\<close> applied to one class. Matching is the backtracking of ECMAScript:
  \<open>rmatch\<close> lists the remainders of the input after every way of matching at its
  start, in the order the engine tries them (greedy first); the engine takes the first.
  With the \<open>i\<close> flag a character matches when its canonical form is that of the
  pattern character (or of a member of the class); the characters whose canonical form
  is that of a member of \<open>\w\<close> or \<open>\s\<close> are the members themselves, so the flag leaves
  these two classes as they are.
\<close>

datatype atom = Lit cu | OneOf "cu list" | WordChar | Space

datatype piece = One atom | Star atom | Plus atom

type_synonym regex = "piece list"

fun atom_matches :: "bool \<Rightarrow> atom \<Rightarrow> cu \<Rightarrow> bool" where
  "atom_matches ic (Lit p) c = (if ic then canonicalize c = canonicalize p else c = p)"
| "atom_matches ic (OneOf ps) c =
     (if ic then canonicalize c \<in> set (map canonicalize ps) else c \<in> set ps)"
| "atom_matches ic WordChar c = is_word c"
| "atom_matches ic Space c = is_space c"

fun rmatch :: "bool \<Rightarrow> regex \<Rightarrow> jstr \<Rightarrow> jstr list" where
  "rmatch ic [] s = [s]"
| "rmatch ic (One a # ps) [] = []"
| "rmatch ic (One a # ps) (c # cs) = (if atom_matches ic a c then rmatch ic ps cs else [])"
| "rmatch ic (Star a # ps) [] = rmatch ic ps []"
| "rmatch ic (Star a # ps) (c # cs) =
     (if atom_matches ic a c then rmatch ic (Star a # ps) cs else []) @ rmatch ic ps (c # cs)"
| "rmatch ic (Plus a # ps) [] = []"
| "rmatch ic (Plus a # ps) (c # cs) =
     (if atom_matches ic a c then rmatch ic (Star a # ps) cs else [])"

definition lits :: "string \<Rightarrow> regex" where
  "lits s = map (\<lambda>c. One (Lit (of_char c))) s"

text \<open>
  \<open>String.prototype.replace\<close> with a global pattern and a replacement string without
  \<open>$\<close>: scan from the left; where the pattern matches, the match is replaced and the
  scan goes on behind it (one position further after an empty match); elsewhere the
  character is copied.
\<close>

fun js_replace_g :: "bool \<Rightarrow> regex \<Rightarrow> jstr \<Rightarrow> jstr \<Rightarrow> jstr" where
  "js_replace_g ic re rep [] = (case rmatch ic re [] of [] \<Rightarrow> [] | r # _ \<Rightarrow> rep)"
| "js_replace_g ic re rep (c # cs) =
     (case rmatch ic re (c # cs) of
        [] \<Rightarrow> c # js_replace_g ic re rep cs
      | r # _ \<Rightarrow>
          if length r \<le> length cs then rep @ js_replace_g ic re rep r
          else rep @ c # js_replace_g ic re rep cs)"

definition js_trim :: "jstr \<Rightarrow> jstr" where
  "js_trim s = rev (dropWhile is_space (rev (dropWhile is_space s)))"

definition substring0 :: "nat \<Rightarrow> jstr \<Rightarrow> jstr" where
  "substring0 n s = take n s"

section \<open>The sanitizer\<close>

text \<open>
  \<^verbatim>\<open>sanitizeInput\<close> of \<^verbatim>\<open>api/generate-voice.js\<close>; the same text stands in the
  process-text function (\<^verbatim>\<open>src/unnamed/part_004\<close>), in the extract-and-process function
  (\<^verbatim>\<open>src/unnamed/part_003\<close>) and in the second server file (\<^verbatim>\<open>src/unnamed/part_001\<close>).
\<close>

definition re_special :: regex where
  "re_special = [One (OneOf [0x3C, 0x3E, 0x22, 0x27, 0x60])]"

definition re_javascript :: regex where
  "re_javascript = lits ''javascript:''"

definition re_on_handler :: regex where
  "re_on_handler = lits ''on'' @ [Plus WordChar, Star Space, One (Lit 0x3D)]"

definition re_newline :: regex where
  "re_newline = [One (OneOf [0x0D, 0x0A])]"

definition re_spaces :: regex where
  "re_spaces = [Plus Space]"

definition sanitizeInput :: "jsval \<Rightarrow> jstr" where
  "sanitizeInput input =
     (if \<not> truthy input \<or> \<not> is_string input then []
      else substring0 2000 (js_trim
             (js_replace_g False re_spaces [0x20]
               (js_replace_g False re_newline [0x20]
                 (js_replace_g True re_on_handler []
                   (js_replace_g True re_javascript []
                     (js_replace_g False re_special [] (str_of input))))))))"

subsection \<open>The sanitizer as the specification words it\<close>

text \<open>
  Each step of the specification's list written directly on the list of code units,
  without any regular expression: these are compared with \<open>sanitizeInput\<close> below.
\<close>

definition spec_remove_special :: "jstr \<Rightarrow> jstr" where
  "spec_remove_special s = filter (\<lambda>c. c \<notin> {0x3C, 0x3E, 0x22, 0x27, 0x60}) s"

definition ascii_lower :: "cu \<Rightarrow> cu" where
  "ascii_lower c = (if 0x41 \<le> c \<and> c \<le> 0x5A then c + 0x20 else c)"

fun starts_with_ci :: "jstr \<Rightarrow> jstr \<Rightarrow> bool" where
  "starts_with_ci [] s = True"
| "starts_with_ci (p # ps) [] = False"
| "starts_with_ci (p # ps) (c # cs) = (ascii_lower c = ascii_lower p \<and> starts_with_ci ps cs)"

fun spec_remove_ci :: "jstr \<Rightarrow> jstr \<Rightarrow> jstr" where
  "spec_remove_ci lit [] = []"
| "spec_remove_ci lit (c # cs) =
     (if lit \<noteq> [] \<and> starts_with_ci lit (c # cs) then spec_remove_ci lit (drop (length lit - 1) cs)
      else c # spec_remove_ci lit cs)"

definition spec_handler_len :: "jstr \<Rightarrow> nat" where
  "spec_handler_len s =
     (let t = drop 2 s; w = takeWhile is_word t; u = dropWhile is_word t;
          v = takeWhile is_space u; r = dropWhile is_space u
      in if starts_with_ci (js ''on'') s \<and> w \<noteq> [] \<and> take 1 r = [0x3D]
         then 2 + length w + length v + 1 else 0)"

fun spec_remove_handlers :: "jstr \<Rightarrow> jstr" where
  "spec_remove_handlers [] = []"
| "spec_remove_handlers (c # cs) =
     (if 0 < spec_handler_len (c # cs) then spec_remove_handlers (drop (spec_handler_len (c # cs) - 1) cs)
      else c # spec_remove_handlers cs)"

definition spec_newlines :: "jstr \<Rightarrow> jstr" where
  "spec_newlines s = map (\<lambda>c. if c = 0x0D \<or> c = 0x0A then 0x20 else c) s"

fun spec_collapse :: "jstr \<Rightarrow> jstr" where
  "spec_collapse [] = []"
| "spec_collapse [c] = [if is_space c then 0x20 else c]"
| "spec_collapse (c # d # cs) =
     (if is_space c then (if is_space d then spec_collapse (d # cs) else 0x20 # spec_collapse (d # cs))
      else c # spec_collapse (d # cs))"

definition spec_clean_trim :: "jstr \<Rightarrow> jstr" where
  "spec_clean_trim s =
     js_trim (spec_collapse (spec_newlines (spec_remove_handlers
       (spec_remove_ci (js ''javascript:'') (spec_remove_special s)))))"

definition spec_sanitize :: "jstr \<Rightarrow> jstr" where
  "spec_sanitize s = take 2000 (spec_clean_trim s)"

text \<open>
  An already-clean ASCII string, in the words of the idempotence property: none of the
  five special characters, no \<open>javascript:\<close> and no handler pattern anywhere (in any
  letter case), no line break, no two whitespace characters in a row, no whitespace at
  either end, at most 2000 code units.
\<close>

fun contains_ci :: "jstr \<Rightarrow> jstr \<Rightarrow> bool" where
  "contains_ci lit [] = starts_with_ci lit []"
| "contains_ci lit (c # cs) = (starts_with_ci lit (c # cs) \<or> contains_ci lit cs)"

fun contains_handler :: "jstr \<Rightarrow> bool" where
  "contains_handler [] = False"
| "contains_handler (c # cs) = (0 < spec_handler_len (c # cs) \<or> contains_handler cs)"

fun no_space_runs :: "jstr \<Rightarrow> bool" where
  "no_space_runs [] = True"
| "no_space_runs [c] = True"
| "no_space_runs (c # d # cs) = (\<not> (is_space c \<and> is_space d) \<and> no_space_runs (d # cs))"

definition untrimmed :: "jstr \<Rightarrow> bool" where
  "untrimmed s \<longleftrightarrow> s \<noteq> [] \<and> (is_space (hd s) \<or> is_space (last s))"

definition clean_text :: "jstr \<Rightarrow> bool" where
  "clean_text s \<longleftrightarrow>
     list_all (\<lambda>c. c \<notin> {0x3C, 0x3E, 0x22, 0x27, 0x60}) s \<and>
     \<not> contains_ci (js ''javascript:'') s \<and>
     \<not> contains_handler s \<and>
     list_all (\<lambda>c. c \<noteq> 0x0D \<and> c \<noteq> 0x0A) s \<and>
     no_space_runs s \<and> \<not> untrimmed s"

definition clean_ascii :: "jstr \<Rightarrow> bool" where
  "clean_ascii s \<longleftrightarrow> list_all (\<lambda>c. c < 0x80) s \<and> clean_text s \<and> length s \<le> 2000"

text \<open>What one pass does to a clean text: every whitespace character becomes a space.\<close>

definition to_space :: "cu \<Rightarrow> cu" where
  "to_space c = (if is_space c then 0x20 else c)"

text \<open>A run of \<open>n\<close> letters \<open>a\<close>, a space and a letter \<open>b\<close>.\<close>

definition long_input :: "nat \<Rightarrow> jstr" where
  "long_input n = replicate n 0x61 @ [0x20, 0x62]"

text \<open>The result of matching \<open>=\<close> at the head of a string, for the proofs about the handler pattern.\<close>

definition eq_tail :: "jstr \<Rightarrow> jstr list" where
  "eq_tail r = (if take 1 r = [0x3D] then [drop 1 r] else [])"


section \<open>Requests, responses and the upstream services\<close>

type_synonym byte = "8 word"

text \<open>
  The part of \<^verbatim>\<open>process.env\<close> the handlers read; \<open>trace\<close> is the text the runtime
  puts behind the first line of \<^verbatim>\<open>err.stack\<close>.
\<close>

record env =
  FRONTEND_URL :: "jstr option"
  ELEVENLABS_VOICE_ID :: "jstr option"
  NODE_ENV :: "jstr option"
  trace :: jstr

record js_error =
  message :: jstr
  stack :: jstr

definition new_error :: "env \<Rightarrow> jstr \<Rightarrow> js_error" where
  "new_error e m = \<lparr>message = m, stack = js ''Error: '' @ m @ trace e\<rparr>"

definition type_error :: "env \<Rightarrow> jstr \<Rightarrow> js_error" where
  "type_error e m = \<lparr>message = m, stack = js ''TypeError: '' @ m @ trace e\<rparr>"

text \<open>
  An awaited upstream call either rejects, with an error of the given message, or
  resolves. All awaited calls are taken to settle.

  The speech service resolves to nothing or to a stream of bytes: a web
  \<^verbatim>\<open>ReadableStream\<close> or a Node stream already. Either one is given by the chunks its
  source hands over, in order, and by how it finishes; a chunk may hold no bytes.
\<close>

datatype 'a settled = Rejected jstr | Resolved 'a

datatype stream_end = StreamEnd | StreamError jstr

datatype audio_stream =
    NoStream
  | WebStream "byte list list" stream_end
  | NodeStream "byte list list" stream_end

record image_part =
  data :: jstr
  mimeType :: jstr

record services =
  generateContent :: "jstr \<Rightarrow> jstr \<Rightarrow> jstr settled"
  generateVision :: "jstr \<Rightarrow> jstr \<Rightarrow> image_part \<Rightarrow> jstr settled"
  textToSpeech :: "jstr \<Rightarrow> jstr \<Rightarrow> audio_stream settled"

text \<open>The upstream calls a request makes, in order, with what is sent.\<close>

datatype call =
    GenerateCall jstr jstr
  | VisionCall jstr jstr image_part
  | SpeechCall jstr jstr

fun is_generate :: "call \<Rightarrow> bool" where
  "is_generate (GenerateCall m p) = True"
| "is_generate _ = False"

text \<open>
  A request as the program reads it: \<^verbatim>\<open>req.method\<close>, \<^verbatim>\<open>req.headers.origin\<close>, and
  \<^verbatim>\<open>req.body\<close>. The body is \<open>None\<close> when the platform or the body parser left
  \<^verbatim>\<open>req.body\<close> undefined (a request without a body), and otherwise the parsed JSON
  object, of which the program reads the fields \<open>text\<close> and \<open>image\<close> (\<open>JUndefined\<close> for
  a field the object does not hold). \<open>hits\<close> is what the rate limiter of the second
  server file has counted for the sender in the current window, this request included.
\<close>

record json_body =
  body_text :: jsval
  body_image :: jsval

record request =
  req_method :: string
  origin :: "jstr option"
  hits :: nat
  req_body :: "json_body option"

definition text_field :: "request \<Rightarrow> jsval" where
  "text_field req = (case req_body req of Some b \<Rightarrow> body_text b | None \<Rightarrow> JUndefined)"

definition image_field :: "request \<Rightarrow> jsval" where
  "image_field req = (case req_body req of Some b \<Rightarrow> body_image b | None \<Rightarrow> JUndefined)"

text \<open>
  A response: the status, the cross-origin headers the program sets itself (those that
  middleware adds are left out), and the body: none, a JSON object of string fields, or
  a text that is not JSON.
\<close>

datatype payload = NoBody | Json "(string \<times> jstr) list" | Plain jstr

record response =
  status :: nat
  headers :: "(string \<times> jstr) list"
  payload :: payload

text \<open>
  What one run of a handler leaves behind: the response, the upstream calls it made, and
  the error that was caught and written to the server log, if any.
\<close>

record outcome =
  reply :: response
  calls :: "call list"
  failure :: "js_error option"

type_synonym attempt = "(js_error + nat \<times> (string \<times> jstr) list) \<times> call list"

subsection \<open>Library functions\<close>

text \<open>\<^verbatim>\<open>Buffer.toString("base64")\<close>.\<close>

definition b64_digit :: "nat \<Rightarrow> cu" where
  "b64_digit n =
     (if n < 26 then of_nat (0x41 + n)
      else if n < 52 then of_nat (0x61 + (n - 26))
      else if n < 62 then of_nat (0x30 + (n - 52))
      else if n = 62 then 0x2B else 0x2F)"

fun base64 :: "byte list \<Rightarrow> jstr" where
  "base64 [] = []"
| "base64 [a] =
     (let x = unat a in [b64_digit (x div 4), b64_digit (x mod 4 * 16), 0x3D, 0x3D])"
| "base64 [a, b] =
     (let x = unat a; y = unat b
      in [b64_digit (x div 4), b64_digit (x mod 4 * 16 + y div 16), b64_digit (y mod 16 * 4), 0x3D])"
| "base64 (a # b # c # rest) =
     (let x = unat a; y = unat b; z = unat c
      in [b64_digit (x div 4), b64_digit (x mod 4 * 16 + y div 16),
          b64_digit (y mod 16 * 4 + z div 64), b64_digit (z mod 64)] @ base64 rest)"

text \<open>
  \<^verbatim>\<open>const { text } = req.body\<close> and \<^verbatim>\<open>const { image } = req.body\<close>: destructuring
  \<open>undefined\<close> throws.
\<close>

definition cannot_destructure :: "string \<Rightarrow> jstr" where
  "cannot_destructure field =
     js ''Cannot destructure property '' @ [0x27] @ js field @ [0x27] @ js '' of '' @
     [0x27] @ js ''req.body'' @ [0x27] @ js '' as it is undefined.''"

definition destructure :: "env \<Rightarrow> string \<Rightarrow> request \<Rightarrow> js_error + json_body" where
  "destructure e field req =
     (case req_body req of
        None \<Rightarrow> Inl (type_error e (cannot_destructure field))
      | Some b \<Rightarrow> Inr b)"

text \<open>
  \<^verbatim>\<open>text?.trim() || ""\<close>: \<open>undefined\<close> and \<open>null\<close> give the empty string, a string
  is trimmed, and any other value has no \<open>trim\<close> to call.
\<close>

fun trimmed_text :: "env \<Rightarrow> jsval \<Rightarrow> js_error + jstr" where
  "trimmed_text e JUndefined = Inr []"
| "trimmed_text e JNull = Inr []"
| "trimmed_text e (JStr s) = Inr (js_trim s)"
| "trimmed_text e v = Inl (type_error e (js ''text?.trim is not a function''))"

text \<open>
  A Node stream that carries bytes (one that is not in object mode, such as
  \<^verbatim>\<open>Readable.fromWeb\<close> makes) passes a chunk on to the \<^verbatim>\<open>data\<close> listener only when
  the chunk holds at least one byte.
\<close>

definition data_events :: "byte list list \<Rightarrow> byte list list" where
  "data_events pushed = filter (\<lambda>chunk. chunk \<noteq> []) pushed"


section \<open>The handlers\<close>

subsection \<open>Prompts\<close>

definition flash :: jstr where
  "flash = js ''gemini-2.0-flash''"

definition pro :: jstr where
  "pro = js ''gemini-1.5-pro''"

definition prompt_tail :: jstr where
  "prompt_tail =
     js ''. '' @ [0x0A] @
     js ''Include natural dialogues between characters, proper narrative flow, and make it interesting. '' @ [0x0A] @
     js ''Keep it under 20 words and make it suitable for text-to-speech reading. '' @ [0x0A] @
     js ''Don'' @ [0x27] @
     js ''t include markdown formatting or special characters, just plain text with dialogue.''"

definition story_prompt :: "jstr \<Rightarrow> jstr" where
  "story_prompt t =
     js ''Write a very short, engaging story based on this idea: '' @ [0x22] @ t @ [0x22] @ prompt_tail"

definition image_story_prompt :: "jstr \<Rightarrow> jstr" where
  "image_story_prompt t =
     js ''Write a very short, engaging story based on this idea extracted from an image: '' @
     [0x22] @ t @ [0x22] @ prompt_tail"

definition extract_prompt :: jstr where
  "extract_prompt = js ''Extract all text from this image. Return only the text content, nothing else.''"

subsection \<open>\<^verbatim>\<open>base64ToGeminiFormat\<close>\<close>

text \<open>
  Both patterns are anchored at the start of the string and are tried there only. The
  group \<open>(\w+)\<close> of the second is what the match holds between its first 11 and its last
  7 characters. A value that is not a string has no \<open>replace\<close>.
\<close>

definition re_data_url :: regex where
  "re_data_url = lits ''data:image/'' @ [Plus WordChar] @ lits '';base64,''"

definition re_mime :: regex where
  "re_mime = lits ''data:image/'' @ [Plus WordChar] @ lits '';base64''"

definition base64ToGeminiFormat :: "env \<Rightarrow> jsval \<Rightarrow> js_error + image_part" where
  "base64ToGeminiFormat e base64String =
     (if \<not> is_string base64String
      then Inl (type_error e (js ''base64String.replace is not a function''))
      else
        let s = str_of base64String;
            base64Data = (case rmatch False re_data_url s of [] \<Rightarrow> s | r # _ \<Rightarrow> r);
            mimeMatch = (case rmatch False re_mime s of
                           [] \<Rightarrow> None
                         | r # _ \<Rightarrow> Some (drop 11 (take (length s - length r - 7) s)))
        in Inr \<lparr>data = base64Data,
                mimeType = (case mimeMatch of Some g \<Rightarrow> js ''image/'' @ g | None \<Rightarrow> js ''image/png'')\<rparr>)"

subsection \<open>Speech synthesis\<close>

text \<open>
  The text from \<^verbatim>\<open>const voiceId\<close> to \<^verbatim>\<open>Buffer.concat(chunks)\<close>, which stands in every
  handler that produces audio: the call, the check for a stream, the conversion of a web
  stream with \<^verbatim>\<open>Readable.fromWeb\<close>, the draining of the stream into \<open>chunks\<close>, the
  check \<^verbatim>\<open>chunks.length === 0\<close>.
\<close>

definition voiceId :: "env \<Rightarrow> jstr" where
  "voiceId e =
     (case ELEVENLABS_VOICE_ID e of
        Some v \<Rightarrow> if v \<noteq> [] then v else js ''jUjRbhZWoMK4aDciW36V''
      | None \<Rightarrow> js ''jUjRbhZWoMK4aDciW36V'')"

text \<open>
  \<open>drain\<close> is the promise around the three listeners: \<open>chunks\<close> holds what the
  \<^verbatim>\<open>data\<close> listener has pushed when the stream ends or fails.
\<close>

definition drain :: "env \<Rightarrow> byte list list \<Rightarrow> stream_end \<Rightarrow> js_error + byte list" where
  "drain e chunks fin =
     (case fin of
        StreamError m \<Rightarrow> Inl (new_error e (js ''Failed to read audio stream: '' @ m))
      | StreamEnd \<Rightarrow>
          if length chunks = 0
          then Inl (new_error e (js ''No audio data received from ElevenLabs''))
          else Inr (concat chunks))"

definition synthesize :: "env \<Rightarrow> services \<Rightarrow> jstr \<Rightarrow> js_error + byte list" where
  "synthesize e svc txt =
     (case textToSpeech svc (voiceId e) txt of
        Rejected m \<Rightarrow> Inl (new_error e (js ''Failed to generate audio: '' @ m))
      | Resolved NoStream \<Rightarrow> Inl (new_error e (js ''No valid audio stream received from ElevenLabs''))
      | Resolved (WebStream pushed fin) \<Rightarrow> drain e (data_events pushed) fin
      | Resolved (NodeStream pushed fin) \<Rightarrow> drain e (data_events pushed) fin)"

subsection \<open>The \<^verbatim>\<open>try\<close> blocks\<close>

text \<open>
  \<^verbatim>\<open>/api/generate-voice\<close>, in \<^verbatim>\<open>api/generate-voice.js\<close> and in the second server file
  (\<^verbatim>\<open>src/unnamed/part_001\<close>).
\<close>

definition generate_voice_try :: "env \<Rightarrow> services \<Rightarrow> request \<Rightarrow> attempt" where
  "generate_voice_try e svc req =
     (case destructure e ''text'' req of
        Inl err \<Rightarrow> (Inl err, [])
      | Inr b \<Rightarrow>
     (case trimmed_text e (body_text b) of
        Inl err \<Rightarrow> (Inl err, [])
      | Inr storyText \<Rightarrow>
          if storyText = []
          then (Inr (400, [(''error'', js ''Story text is required to generate voiceover.'')]), [])
          else
            let sanitizedStoryText = sanitizeInput (JStr storyText) in
            if sanitizedStoryText = [] \<or> length sanitizedStoryText = 0
            then (Inr (400, [(''error'',
                    js ''Invalid story text. Please provide valid text to generate voiceover.'')]), [])
            else
              (case synthesize e svc sanitizedStoryText of
                 Inl err \<Rightarrow> (Inl err, [SpeechCall (voiceId e) sanitizedStoryText])
               | Inr audioBuffer \<Rightarrow>
                   (Inr (200, [(''audioBase64'', base64 audioBuffer), (''audioMime'', js ''audio/mpeg'')]),
                    [SpeechCall (voiceId e) sanitizedStoryText]))))"

text \<open>
  \<^verbatim>\<open>/api/process-text\<close>, in the function of that route (\<^verbatim>\<open>src/unnamed/part_004\<close>) and
  in the second server file.
\<close>

definition process_text_try :: "env \<Rightarrow> services \<Rightarrow> request \<Rightarrow> attempt" where
  "process_text_try e svc req =
     (case destructure e ''text'' req of
        Inl err \<Rightarrow> (Inl err, [])
      | Inr b \<Rightarrow>
     (case trimmed_text e (body_text b) of
        Inl err \<Rightarrow> (Inl err, [])
      | Inr inputText \<Rightarrow>
          if inputText = []
          then (Inr (400, [(''error'', js ''Text is required. Please provide text to process.'')]), [])
          else
            let sanitizedInput = sanitizeInput (JStr inputText) in
            if sanitizedInput = [] \<or> length sanitizedInput = 0
            then (Inr (400, [(''error'', js ''Invalid input. Please provide valid text to process.'')]), [])
            else
              (case generateContent svc flash (story_prompt sanitizedInput) of
                 Rejected m \<Rightarrow>
                   (Inl (new_error e (js ''Failed to process text: '' @ m)),
                    [GenerateCall flash (story_prompt sanitizedInput)])
               | Resolved processedStory \<Rightarrow>
                   (Inr (200, [(''processedStory'', processedStory)]),
                    [GenerateCall flash (story_prompt sanitizedInput)]))))"

text \<open>
  \<^verbatim>\<open>/api/extract-and-process\<close>; the function of that route (\<^verbatim>\<open>src/unnamed/part_003\<close>)
  asks \<^verbatim>\<open>gemini-1.5-pro\<close> for the extraction, the second server file \<^verbatim>\<open>gemini-2.0-flash\<close>.
\<close>

definition extract_and_process_try :: "jstr \<Rightarrow> env \<Rightarrow> services \<Rightarrow> request \<Rightarrow> attempt" where
  "extract_and_process_try vmodel e svc req =
     (case destructure e ''image'' req of
        Inl err \<Rightarrow> (Inl err, [])
      | Inr b \<Rightarrow>
      if \<not> truthy (body_image b)
      then (Inr (400, [(''error'', js ''Image is required. Please upload an image.'')]), [])
      else
        (case base64ToGeminiFormat e (body_image b) of
           Inl err \<Rightarrow>
             (Inl (new_error e (js ''Failed to extract text from image: '' @ message err)), [])
         | Inr imagePart \<Rightarrow>
             (case generateVision svc vmodel extract_prompt imagePart of
                Rejected m \<Rightarrow>
                  (Inl (new_error e (js ''Failed to extract text from image: '' @ m)),
                   [VisionCall vmodel extract_prompt imagePart])
              | Resolved extractedText \<Rightarrow>
                  if extractedText = [] \<or> length (js_trim extractedText) = 0
                  then (Inr (400, [(''error'',
                          js ''No text could be extracted from the image. Please try a different image.'')]),
                        [VisionCall vmodel extract_prompt imagePart])
                  else
                    let sanitizedText = sanitizeInput (JStr extractedText);
                        prompt = image_story_prompt sanitizedText
                    in (case generateContent svc flash prompt of
                          Rejected m \<Rightarrow>
                            (Inl (new_error e (js ''Failed to process text: '' @ m)),
                             [VisionCall vmodel extract_prompt imagePart, GenerateCall flash prompt])
                        | Resolved processedStory \<Rightarrow>
                            (Inr (200, [(''extractedText'', extractedText),
                                        (''processedStory'', processedStory)]),
                             [VisionCall vmodel extract_prompt imagePart, GenerateCall flash prompt])))))"

text \<open>
  \<^verbatim>\<open>/api/generate\<close>. The story is generated from \<open>promptText\<close> and then spoken; the
  rest is common to the three copies of this route.
\<close>

definition story_and_audio :: "env \<Rightarrow> services \<Rightarrow> jstr \<Rightarrow> attempt" where
  "story_and_audio e svc promptText =
     (case generateContent svc flash (story_prompt promptText) of
        Rejected m \<Rightarrow>
          (Inl (new_error e (js ''Failed to generate story: '' @ m)),
           [GenerateCall flash (story_prompt promptText)])
      | Resolved generatedStory \<Rightarrow>
          (case synthesize e svc generatedStory of
             Inl err \<Rightarrow>
               (Inl err, [GenerateCall flash (story_prompt promptText),
                          SpeechCall (voiceId e) generatedStory])
           | Inr audioBuffer \<Rightarrow>
               (Inr (200, [(''text'', generatedStory), (''audioBase64'', base64 audioBuffer),
                           (''audioMime'', js ''audio/mpeg'')]),
                [GenerateCall flash (story_prompt promptText),
                 SpeechCall (voiceId e) generatedStory])))"

text \<open>In \<^verbatim>\<open>api/generate.js\<close> and \<^verbatim>\<open>backend/index.js\<close> the prompt takes \<open>userInput\<close> as it is.\<close>

definition generate_try :: "env \<Rightarrow> services \<Rightarrow> request \<Rightarrow> attempt" where
  "generate_try e svc req =
     (case destructure e ''text'' req of
        Inl err \<Rightarrow> (Inl err, [])
      | Inr b \<Rightarrow>
     (case trimmed_text e (body_text b) of
        Inl err \<Rightarrow> (Inl err, [])
      | Inr userInput \<Rightarrow>
          if userInput = []
          then (Inr (400, [(''error'', js ''Text is required. Please provide a story idea or topic.'')]), [])
          else story_and_audio e svc userInput))"

text \<open>In the second server file (\<^verbatim>\<open>src/unnamed/part_001\<close>) the input is sanitized first.\<close>

definition generate_sanitized_try :: "env \<Rightarrow> services \<Rightarrow> request \<Rightarrow> attempt" where
  "generate_sanitized_try e svc req =
     (case destructure e ''text'' req of
        Inl err \<Rightarrow> (Inl err, [])
      | Inr b \<Rightarrow>
     (case trimmed_text e (body_text b) of
        Inl err \<Rightarrow> (Inl err, [])
      | Inr userInput \<Rightarrow>
          if userInput = []
          then (Inr (400, [(''error'', js ''Text is required. Please provide a story idea or topic.'')]), [])
          else
            let sanitizedInput = sanitizeInput (JStr userInput) in
            if sanitizedInput = [] \<or> length sanitizedInput = 0
            then (Inr (400, [(''error'', js ''Invalid input. Please provide valid text.'')]), [])
            else story_and_audio e svc sanitizedInput))"

subsection \<open>The \<^verbatim>\<open>catch\<close> blocks\<close>

text \<open>
  Nothing throws once a response has been sent, so \<^verbatim>\<open>res.headersSent\<close> is false
  whenever a \<^verbatim>\<open>catch\<close> runs.
\<close>

definition respond :: "(string \<times> jstr) list \<Rightarrow> nat \<Rightarrow> (string \<times> jstr) list \<Rightarrow> response" where
  "respond hs st body = \<lparr>status = st, headers = hs, payload = Json body\<rparr>"

definition generic_message :: jstr where
  "generic_message = js ''An error occurred processing your request. Please try again.''"

definition catch_generic :: "(string \<times> jstr) list \<Rightarrow> attempt \<Rightarrow> outcome" where
  "catch_generic hs a =
     (case a of
        (Inr (st, body), cs) \<Rightarrow> \<lparr>reply = respond hs st body, calls = cs, failure = None\<rparr>
      | (Inl err, cs) \<Rightarrow>
          \<lparr>reply = respond hs 500 [(''error'', generic_message)], calls = cs, failure = Some err\<rparr>)"

text \<open>
  The \<^verbatim>\<open>catch\<close> of the \<^verbatim>\<open>/api/generate\<close> copies: \<^verbatim>\<open>err.message || "Internal server error"\<close>,
  and \<^verbatim>\<open>err.stack\<close> under \<^verbatim>\<open>NODE_ENV === "development"\<close> (a field that is
  \<open>undefined\<close> is left out of the JSON text).
\<close>

definition catch_echo :: "env \<Rightarrow> (string \<times> jstr) list \<Rightarrow> attempt \<Rightarrow> outcome" where
  "catch_echo e hs a =
     (case a of
        (Inr (st, body), cs) \<Rightarrow> \<lparr>reply = respond hs st body, calls = cs, failure = None\<rparr>
      | (Inl err, cs) \<Rightarrow>
          \<lparr>reply = respond hs 500
             ((''error'', if message err \<noteq> [] then message err else js ''Internal server error'') #
              (if NODE_ENV e = Some (js ''development'') then [(''details'', stack err)] else [])),
           calls = cs, failure = Some err\<rparr>)"

subsection \<open>Cross-origin headers and the HTTP method checks of the functions\<close>

definition allowedOrigins :: "env \<Rightarrow> jstr list" where
  "allowedOrigins e =
     filter (\<lambda>u. u \<noteq> [])
       ((case FRONTEND_URL e of Some u \<Rightarrow> [u] | None \<Rightarrow> []) @
        [js ''http://localhost:5173'', js ''http://localhost:3000''])"

definition restricted_cors :: "env \<Rightarrow> request \<Rightarrow> (string \<times> jstr) list" where
  "restricted_cors e req =
     (case origin req of
        Some og \<Rightarrow>
          if og \<noteq> [] \<and> og \<in> set (allowedOrigins e)
          then [(''Access-Control-Allow-Origin'', og)] else []
      | None \<Rightarrow> []) @
     [(''Access-Control-Allow-Credentials'', js ''true''),
      (''Access-Control-Allow-Methods'', js ''POST, OPTIONS''),
      (''Access-Control-Allow-Headers'', js ''Content-Type'')]"

definition open_cors :: "(string \<times> jstr) list" where
  "open_cors =
     [(''Access-Control-Allow-Credentials'', js ''true''),
      (''Access-Control-Allow-Origin'', js ''*''),
      (''Access-Control-Allow-Methods'', js ''GET,OPTIONS,PATCH,DELETE,POST,PUT''),
      (''Access-Control-Allow-Headers'',
       js ''X-CSRF-Token, X-Requested-With, Accept, Accept-Version, Content-Length, Content-MD5, Content-Type, Date, X-Api-Version'')]"

definition method_gate :: "(string \<times> jstr) list \<Rightarrow> request \<Rightarrow> outcome \<Rightarrow> outcome" where
  "method_gate hs req run =
     (if req_method req = ''OPTIONS''
      then \<lparr>reply = \<lparr>status = 200, headers = hs, payload = NoBody\<rparr>, calls = [], failure = None\<rparr>
      else if req_method req \<noteq> ''POST''
      then \<lparr>reply = respond hs 405 [(''error'', js ''Method not allowed'')], calls = [], failure = None\<rparr>
      else run)"

subsection \<open>The four functions, one per route\<close>

definition generate_voice_handler :: "env \<Rightarrow> services \<Rightarrow> request \<Rightarrow> outcome" where
  "generate_voice_handler e svc req =
     method_gate (restricted_cors e req) req
       (catch_generic (restricted_cors e req) (generate_voice_try e svc req))"

definition process_text_handler :: "env \<Rightarrow> services \<Rightarrow> request \<Rightarrow> outcome" where
  "process_text_handler e svc req =
     method_gate (restricted_cors e req) req
       (catch_generic (restricted_cors e req) (process_text_try e svc req))"

definition extract_and_process_handler :: "env \<Rightarrow> services \<Rightarrow> request \<Rightarrow> outcome" where
  "extract_and_process_handler e svc req =
     method_gate (restricted_cors e req) req
       (catch_generic (restricted_cors e req) (extract_and_process_try pro e svc req))"

definition generate_handler :: "env \<Rightarrow> services \<Rightarrow> request \<Rightarrow> outcome" where
  "generate_handler e svc req =
     method_gate open_cors req (catch_echo e open_cors (generate_try e svc req))"

subsection \<open>The routes of the two server files\<close>

text \<open>
  \<^verbatim>\<open>backend/index.js\<close> holds \<^verbatim>\<open>/api/generate\<close> alone, the second server file
  (\<^verbatim>\<open>src/unnamed/part_001\<close>) all four routes. What stands between a request and a route
  callback is middleware and the framework; their code is not part of the program, and
  they are taken to do what their documentation says.

  A route registered with \<^verbatim>\<open>app.post\<close> runs on POST only. A request that no route
  matches gets the framework's 404 page (of which the message line is kept).
\<close>

definition app_post :: "string \<Rightarrow> request \<Rightarrow> outcome \<Rightarrow> outcome" where
  "app_post path req run =
     (if req_method req = ''POST'' then run
      else \<lparr>reply = \<lparr>status = 404, headers = [],
                      payload = Plain (js (''Cannot '' @ req_method req @ '' '' @ path))\<rparr>,
            calls = [], failure = None\<rparr>)"

text \<open>
  In front of the routes of the second server file, in this order:
  \<^verbatim>\<open>cors(corsOptions)\<close>, which asks \<^verbatim>\<open>corsOptions.origin\<close> and on its error goes to the
  error handler at the end of the file, and which answers every OPTIONS request itself
  with \<^verbatim>\<open>optionsSuccessStatus\<close> and no body; then the rate limiter (\<^verbatim>\<open>max: 100\<close>,
  answering 429 with its message); then the JSON body parser.
\<close>

definition origin_allowed :: "env \<Rightarrow> request \<Rightarrow> bool" where
  "origin_allowed e req =
     (case origin req of
        None \<Rightarrow> True
      | Some og \<Rightarrow> og = [] \<or> og \<in> set (allowedOrigins e))"

definition server_front :: "env \<Rightarrow> request \<Rightarrow> outcome \<Rightarrow> outcome" where
  "server_front e req run =
     (if \<not> origin_allowed e req
      then \<lparr>reply = respond [] 500 [(''error'', js ''Internal server error'')], calls = [],
            failure = Some (new_error e (js ''Not allowed by CORS''))\<rparr>
      else if req_method req = ''OPTIONS''
      then \<lparr>reply = \<lparr>status = 200, headers = [], payload = NoBody\<rparr>, calls = [], failure = None\<rparr>
      else if 100 < hits req
      then \<lparr>reply = \<lparr>status = 429, headers = [],
                      payload = Plain (js ''Too many requests from this IP, please try again later.'')\<rparr>,
            calls = [], failure = None\<rparr>
      else run)"

text \<open>
  In front of the route of \<^verbatim>\<open>backend/index.js\<close>: \<^verbatim>\<open>cors()\<close> with its defaults, which
  admits every origin and answers OPTIONS with 204, and the JSON body parser.
\<close>

definition backend_front :: "request \<Rightarrow> outcome \<Rightarrow> outcome" where
  "backend_front req run =
     (if req_method req = ''OPTIONS''
      then \<lparr>reply = \<lparr>status = 204, headers = [], payload = NoBody\<rparr>, calls = [], failure = None\<rparr>
      else run)"

definition server_generate_voice :: "env \<Rightarrow> services \<Rightarrow> request \<Rightarrow> outcome" where
  "server_generate_voice e svc req =
     server_front e req (app_post ''/api/generate-voice'' req
       (catch_generic [] (generate_voice_try e svc req)))"

definition server_process_text :: "env \<Rightarrow> services \<Rightarrow> request \<Rightarrow> outcome" where
  "server_process_text e svc req =
     server_front e req (app_post ''/api/process-text'' req
       (catch_generic [] (process_text_try e svc req)))"

definition server_extract_and_process :: "env \<Rightarrow> services \<Rightarrow> request \<Rightarrow> outcome" where
  "server_extract_and_process e svc req =
     server_front e req (app_post ''/api/extract-and-process'' req
       (catch_generic [] (extract_and_process_try flash e svc req)))"

definition server_generate :: "env \<Rightarrow> services \<Rightarrow> request \<Rightarrow> outcome" where
  "server_generate e svc req =
     server_front e req (app_post ''/api/generate'' req
       (catch_echo e [] (generate_sanitized_try e svc req)))"

definition backend_generate :: "env \<Rightarrow> services \<Rightarrow> request \<Rightarrow> outcome" where
  "backend_generate e svc req =
     backend_front req (app_post ''/api/generate'' req
       (catch_echo e [] (generate_try e svc req)))"


section \<open>Predicates on requests and outcomes, and concrete runs\<close>

text \<open>A required field that is missing (\<open>undefined\<close> or \<open>null\<close>) or a blank string.\<close>

fun absent_or_blank :: "jsval \<Rightarrow> bool" where
  "absent_or_blank JUndefined = True"
| "absent_or_blank JNull = True"
| "absent_or_blank (JStr s) = (js_trim s = [])"
| "absent_or_blank v = False"

text \<open>
  A run that ended in a 400 response holding one JSON object with the key \<open>error\<close>,
  without any upstream call and without an error caught.
\<close>

definition rejected_early :: "outcome \<Rightarrow> bool" where
  "rejected_early out \<longleftrightarrow>
     status (reply out) = 400 \<and>
     (case payload (reply out) of Json [(k, m)] \<Rightarrow> k = ''error'' \<and> m \<noteq> [] | _ \<Rightarrow> False) \<and>
     calls out = [] \<and> failure out = None"

text \<open>
  A request that the middleware of the second server file lets through to the routes:
  its origin is admitted and the sender is within the rate limit.
\<close>

definition admitted :: "env \<Rightarrow> request \<Rightarrow> bool" where
  "admitted e req \<longleftrightarrow> origin_allowed e req \<and> hits req \<le> 100"

text \<open>
  The routes by required field, in both deployment shapes; the flag says whether the
  route stands behind the middleware of the second server file. The image routes come
  with the model they ask for the extraction.
\<close>

type_synonym route = "env \<Rightarrow> services \<Rightarrow> request \<Rightarrow> outcome"

definition text_routes :: "(route \<times> bool) list" where
  "text_routes =
     [(generate_voice_handler, False), (process_text_handler, False), (generate_handler, False),
      (backend_generate, False),
      (server_generate_voice, True), (server_process_text, True), (server_generate, True)]"

definition sanitizing_text_routes :: "(route \<times> bool) list" where
  "sanitizing_text_routes =
     [(generate_voice_handler, False), (process_text_handler, False),
      (server_generate_voice, True), (server_process_text, True), (server_generate, True)]"

definition image_routes :: "(route \<times> bool \<times> jstr) list" where
  "image_routes =
     [(extract_and_process_handler, False, pro), (server_extract_and_process, True, flash)]"

definition function_routes :: "route list" where
  "function_routes =
     [generate_voice_handler, process_text_handler, extract_and_process_handler, generate_handler]"

definition gated_server_routes :: "route list" where
  "gated_server_routes =
     [server_generate_voice, server_process_text, server_extract_and_process, server_generate]"

definition server_routes :: "route list" where
  "server_routes = backend_generate # gated_server_routes"


text \<open>Outcomes the claims speak of.\<close>

definition extraction_refused :: "call \<Rightarrow> outcome \<Rightarrow> bool" where
  "extraction_refused c out \<longleftrightarrow>
     status (reply out) = 400 \<and>
     payload (reply out) =
       Json [(''error'', js ''No text could be extracted from the image. Please try a different image.'')] \<and>
     calls out = [c] \<and> list_all (\<lambda>c. \<not> is_generate c) (calls out) \<and> failure out = None"

definition preflight_ok :: "outcome \<Rightarrow> bool" where
  "preflight_ok out \<longleftrightarrow>
     status (reply out) = 200 \<and> payload (reply out) = NoBody \<and>
     ''Access-Control-Allow-Headers'' \<in> fst ` set (headers (reply out)) \<and> calls out = []"

definition method_refused :: "outcome \<Rightarrow> bool" where
  "method_refused out \<longleftrightarrow>
     status (reply out) = 405 \<and>
     payload (reply out) = Json [(''error'', js ''Method not allowed'')] \<and> calls out = []"







text \<open>An environment without settings, requests, and upstream services for the runs below.\<close>

definition env0 :: env where
  "env0 = \<lparr>FRONTEND_URL = None, ELEVENLABS_VOICE_ID = None, NODE_ENV = None, trace = []\<rparr>"

definition env_dev :: env where
  "env_dev = \<lparr>FRONTEND_URL = None, ELEVENLABS_VOICE_ID = None,
               NODE_ENV = Some (js ''development''), trace = 0x0A # js ''    at handler (api/generate.js:62:19)''\<rparr>"

definition post_text :: "jstr \<Rightarrow> request" where
  "post_text t =
     \<lparr>req_method = ''POST'', origin = None, hits = 1,
      req_body = Some \<lparr>body_text = JStr t, body_image = JUndefined\<rparr>\<rparr>"

definition post_image :: "jstr \<Rightarrow> request" where
  "post_image i =
     \<lparr>req_method = ''POST'', origin = None, hits = 1,
      req_body = Some \<lparr>body_text = JUndefined, body_image = JStr i\<rparr>\<rparr>"

definition png_url :: jstr where
  "png_url = js ''data:image/png;base64,QUJD''"

text \<open>Every call succeeds: the extraction reads \<open>extracted\<close>, the story is \<open>Hi.\<close>, the audio is one byte.\<close>

definition svc_ok :: "jstr \<Rightarrow> services" where
  "svc_ok extracted =
     \<lparr>generateContent = (\<lambda>m p. Resolved (js ''Hi.'')),
      generateVision = (\<lambda>m p i. Resolved extracted),
      textToSpeech = (\<lambda>v t. Resolved (WebStream [[0x49]] StreamEnd))\<rparr>"

text \<open>The generation service rejects with the given message.\<close>

definition svc_generation_fails :: "jstr \<Rightarrow> services" where
  "svc_generation_fails m =
     \<lparr>generateContent = (\<lambda>md p. Rejected m),
      generateVision = (\<lambda>md p i. Rejected m),
      textToSpeech = (\<lambda>v t. Resolved (WebStream [[0x49]] StreamEnd))\<rparr>"



section \<open>The sanitizer refines its specification\<close>

subsection \<open>Single-character patterns\<close>

lemma replace_one_del:
  "js_replace_g ic [One a] [] s = filter (\<lambda>c. \<not> atom_matches ic a c) s"
  by (induction s) auto

lemma replace_one_map:
  "js_replace_g ic [One a] [r] s = map (\<lambda>c. if atom_matches ic a c then r else c) s"
  by (induction s) auto

lemma unat_canonicalize:
  "unat (canonicalize c) = (if 97 \<le> unat c \<and> unat c \<le> 122 then unat c - 32 else unat c)"
proof -
  have "unat (c - 0x20) = unat c - 32" if "0x61 \<le> c"
  proof -
    have "(0x20::cu) \<le> c" using that by (simp add: word_le_nat_alt)
    then show ?thesis by (simp add: unat_sub)
  qed
  then show ?thesis
    by (simp add: canonicalize_def word_le_nat_alt)
qed

lemma unat_ascii_lower:
  "unat (ascii_lower c) = (if 65 \<le> unat c \<and> unat c \<le> 90 then unat c + 32 else unat c)"
proof -
  have "unat (c + 0x20) = unat c + 32" if "c \<le> 0x5A"
  proof -
    have "unat c \<le> 90" using that by (simp add: word_le_nat_alt)
    then show ?thesis by (simp add: unat_word_ariths)
  qed
  then show ?thesis
    by (simp add: ascii_lower_def word_le_nat_alt)
qed

lemma canon_lower: "canonicalize c = canonicalize p \<longleftrightarrow> ascii_lower c = ascii_lower p"
proof -
  have "unat (canonicalize c) = unat (canonicalize p) \<longleftrightarrow> unat (ascii_lower c) = unat (ascii_lower p)"
    unfolding unat_canonicalize unat_ascii_lower by (simp split: if_splits) arith
  then show ?thesis by (simp add: word_unat_eq_iff)
qed

lemma atom_lit_ci: "atom_matches True (Lit p) c \<longleftrightarrow> ascii_lower c = ascii_lower p"
  by (simp add: canon_lower)

lemma rmatch_lits:
  "rmatch True (lits p @ re) s =
     (if starts_with_ci (js p) s then rmatch True re (drop (length p) s) else [])"
proof (induction p arbitrary: s)
  case Nil
  then show ?case by (simp add: lits_def js_def)
next
  case (Cons a p)
  have IH: "rmatch True (map (\<lambda>c. One (Lit (of_char c))) p @ re) t =
     (if starts_with_ci (map of_char p) t then rmatch True re (drop (length p) t) else [])" for t
    using Cons.IH [of t] by (simp add: lits_def js_def)
  show ?case
    by (cases s) (simp_all add: lits_def js_def IH canon_lower)
qed

lemma rmatch_lits_only:
  "rmatch True (lits p) s = (if starts_with_ci (js p) s then [drop (length p) s] else [])"
  using rmatch_lits [of p "[]" s] by simp

lemma replace_lits:
  assumes "p \<noteq> []"
  shows "js_replace_g True (lits p) [] s = spec_remove_ci (js p) s"
proof (induction s rule: length_induct)
  case (1 s)
  show ?case
  proof (cases s)
    case Nil
    with assms show ?thesis by (cases p) (simp_all add: rmatch_lits_only js_def)
  next
    case (Cons c cs)
    have len: "length (drop (length p) (c # cs)) \<le> length cs"
      using assms by (cases p) simp_all
    have dr: "drop (length p) (c # cs) = drop (length p - 1) cs"
      using assms by (cases p) simp_all
    have nz: "js p \<noteq> []" using assms by (simp add: js_def)
    show ?thesis
    proof (cases "starts_with_ci (js p) (c # cs)")
      case True
      have "js_replace_g True (lits p) [] (drop (length p - 1) cs) =
              spec_remove_ci (js p) (drop (length p - 1) cs)"
        using 1 Cons by simp
      moreover have "length (js p) = length p" by (simp add: js_def)
      ultimately show ?thesis
        using True Cons len dr nz by (simp add: rmatch_lits_only)
    next
      case False
      have "js_replace_g True (lits p) [] cs = spec_remove_ci (js p) cs"
        using 1 Cons by simp
      then show ?thesis using False Cons by (simp add: rmatch_lits_only)
    qed
  qed
qed

lemma word_not_space: "is_word c \<Longrightarrow> \<not> is_space c"
  by (auto simp: is_word_def is_space_def word_le_nat_alt)

lemma word_not_eq: "is_word c \<Longrightarrow> c \<noteq> 0x3D"
  by (auto simp: is_word_def)

lemma space_not_eq: "is_space c \<Longrightarrow> c \<noteq> 0x3D"
  by (auto simp: is_space_def)

lemma atom_eq_sign: "atom_matches True (Lit 0x3D) c \<longleftrightarrow> c = 0x3D"
proof -
  have "unat (canonicalize c) = unat (canonicalize 0x3D) \<longleftrightarrow> unat c = unat (0x3D :: cu)"
    unfolding unat_canonicalize by (simp split: if_splits) arith
  then show ?thesis by (simp add: word_unat_eq_iff)
qed

lemma rmatch_eq: "rmatch True [One (Lit 0x3D)] s = eq_tail s"
  by (cases s) (simp_all add: atom_eq_sign eq_tail_def del: atom_matches.simps)

lemma rmatch_space_eq:
  "rmatch True [Star Space, One (Lit 0x3D)] s = eq_tail (dropWhile is_space s)"
proof (induction s)
  case Nil
  then show ?case by (simp add: eq_tail_def)
next
  case (Cons c cs)
  show ?case
  proof (cases "is_space c")
    case True
    then have "rmatch True [One (Lit 0x3D)] (c # cs) = []"
      using space_not_eq [of c] by (simp add: atom_eq_sign del: atom_matches.simps)
    with True Cons show ?thesis by simp
  next
    case False
    then show ?thesis using rmatch_eq [of "c # cs"] by simp
  qed
qed

lemma rmatch_word_space_eq:
  "rmatch True [Star WordChar, Star Space, One (Lit 0x3D)] s =
     eq_tail (dropWhile is_space (dropWhile is_word s))"
proof (induction s)
  case Nil
  then show ?case by (simp add: eq_tail_def)
next
  case (Cons c cs)
  show ?case
  proof (cases "is_word c")
    case True
    then have "eq_tail (dropWhile is_space (c # cs)) = []"
      using word_not_space [of c] word_not_eq [of c] by (simp add: eq_tail_def)
    then have "rmatch True [Star Space, One (Lit 0x3D)] (c # cs) = []"
      by (simp only: rmatch_space_eq)
    with True Cons show ?thesis by simp
  next
    case False
    then show ?thesis using rmatch_space_eq [of "c # cs"] by simp
  qed
qed

lemma rmatch_handler_tail:
  "rmatch True [Plus WordChar, Star Space, One (Lit 0x3D)] t =
     (if takeWhile is_word t \<noteq> [] then eq_tail (dropWhile is_space (dropWhile is_word t)) else [])"
  by (cases t) (simp_all add: rmatch_word_space_eq del: atom_matches.simps(1))

lemma rmatch_on_handler:
  "rmatch True re_on_handler s =
     (if 0 < spec_handler_len s then [drop (spec_handler_len s) s] else [])"
proof -
  let ?t = "drop 2 s"
  let ?u = "dropWhile is_word ?t"
  let ?r = "dropWhile is_space ?u"
  have split: "drop (2 + length (takeWhile is_word ?t) + length (takeWhile is_space ?u) + 1) s = drop 1 ?r"
  proof -
    have "drop (length (takeWhile is_word ?t)) ?t = ?u" by (simp add: dropWhile_eq_drop)
    moreover have "drop (length (takeWhile is_space ?u)) ?u = ?r" by (simp add: dropWhile_eq_drop)
    ultimately show ?thesis
      by (metis (no_types, lifting) add.commute drop_drop)
  qed
  have "length ''on'' = 2" by simp
  then have "rmatch True re_on_handler s =
     (if starts_with_ci (js ''on'') s then rmatch True [Plus WordChar, Star Space, One (Lit 0x3D)] ?t else [])"
    unfolding re_on_handler_def by (simp only: rmatch_lits)
  then show ?thesis
    using split
    by (simp add: rmatch_handler_tail spec_handler_len_def eq_tail_def Let_def)
qed

lemma spec_handler_len_le: "spec_handler_len s \<le> length s"
proof -
  let ?t = "drop 2 s"
  let ?u = "dropWhile is_word ?t"
  let ?r = "dropWhile is_space ?u"
  have a: "length (takeWhile is_word ?t) + length ?u = length ?t"
    by (metis length_append takeWhile_dropWhile_id)
  have b: "length (takeWhile is_space ?u) + length ?r = length ?u"
    by (metis length_append takeWhile_dropWhile_id)
  have c: "starts_with_ci (js ''on'') s \<Longrightarrow> 2 \<le> length s"
    by (cases s; cases "tl s") (auto simp: js_def)
  have d: "take 1 ?r = [0x3D] \<Longrightarrow> 1 \<le> length ?r"
    by (cases ?r) auto
  show ?thesis
    using a b c d by (auto simp: spec_handler_len_def Let_def)
qed

lemma replace_on_handler:
  "js_replace_g True re_on_handler [] s = spec_remove_handlers s"
proof (induction s rule: length_induct)
  case (1 s)
  show ?case
  proof (cases s)
    case Nil
    have "spec_handler_len [] = 0" using spec_handler_len_le [of "[]"] by simp
    with Nil show ?thesis by (simp add: rmatch_on_handler)
  next
    case (Cons c cs)
    show ?thesis
    proof (cases "0 < spec_handler_len (c # cs)")
      case True
      then obtain n where n: "spec_handler_len (c # cs) = Suc n"
        by (cases "spec_handler_len (c # cs)") auto
      have "js_replace_g True re_on_handler [] (drop n cs) = spec_remove_handlers (drop n cs)"
        using 1 Cons by simp
      then show ?thesis using Cons n by (simp add: rmatch_on_handler)
    next
      case False
      have "js_replace_g True re_on_handler [] cs = spec_remove_handlers cs"
        using 1 Cons by simp
      then show ?thesis using False Cons by (simp add: rmatch_on_handler)
    qed
  qed
qed

lemma rmatch_star_hd:
  "\<exists>rs. rmatch ic [Star a] s = dropWhile (atom_matches ic a) s # rs"
  by (induction s) auto

lemma atom_space_fun: "atom_matches ic Space = is_space"
  by (rule ext) simp

lemma collapse_space:
  "is_space c \<Longrightarrow> spec_collapse (c # cs) = 0x20 # spec_collapse (dropWhile is_space cs)"
  by (induction cs arbitrary: c) auto

lemma collapse_nonspace:
  "\<not> is_space c \<Longrightarrow> spec_collapse (c # cs) = c # spec_collapse cs"
  by (cases cs) auto

lemma replace_spaces:
  "js_replace_g False re_spaces [0x20] s = spec_collapse s"
proof (induction s rule: length_induct)
  case (1 s)
  show ?case
  proof (cases s)
    case Nil
    then show ?thesis by (simp add: re_spaces_def)
  next
    case (Cons c cs)
    show ?thesis
    proof (cases "is_space c")
      case True
      obtain rs where rs: "rmatch False [Star Space] cs = dropWhile is_space cs # rs"
        using rmatch_star_hd [of False Space cs] by (auto simp only: atom_space_fun)
      have le: "length (dropWhile is_space cs) \<le> length cs"
        by (rule length_dropWhile_le)
      then have "js_replace_g False re_spaces [0x20] (dropWhile is_space cs) =
          spec_collapse (dropWhile is_space cs)"
        using 1 Cons by simp
      then show ?thesis
        using True Cons rs le by (simp add: re_spaces_def collapse_space del: spec_collapse.simps)
    next
      case False
      have "js_replace_g False re_spaces [0x20] cs = spec_collapse cs"
        using 1 Cons by simp
      then show ?thesis
        using False Cons by (simp add: re_spaces_def collapse_nonspace del: spec_collapse.simps)
    qed
  qed
qed

lemma replace_special:
  "js_replace_g False re_special [] s = spec_remove_special s"
  by (simp add: re_special_def replace_one_del spec_remove_special_def)

lemma replace_newline:
  "js_replace_g False re_newline [0x20] s = spec_newlines s"
  by (simp add: re_newline_def replace_one_map spec_newlines_def)

lemma replace_javascript:
  "js_replace_g True re_javascript [] s = spec_remove_ci (js ''javascript:'') s"
  unfolding re_javascript_def by (rule replace_lits) simp

lemma sanitize_str: "sanitizeInput (JStr s) = spec_sanitize s"
proof (cases "s = []")
  case True
  then show ?thesis
    by (simp add: sanitizeInput_def spec_sanitize_def spec_clean_trim_def spec_remove_special_def
        spec_newlines_def js_trim_def)
next
  case False
  then show ?thesis
    by (simp add: sanitizeInput_def spec_sanitize_def spec_clean_trim_def substring0_def replace_special
        replace_javascript replace_on_handler replace_newline replace_spaces)
qed

lemma sanitize_not_string: "\<not> is_string v \<Longrightarrow> sanitizeInput v = []"
  by (simp add: sanitizeInput_def)

lemma sanitize_length: "length (sanitizeInput v) \<le> 2000"
  by (simp add: sanitizeInput_def substring0_def)

lemma sanitize_example:
  "sanitizeInput (JStr (js '' a   b'' @ [0x0A] @ js '' c '')) = js ''a b c''"
  by (simp add: sanitize_str spec_sanitize_def spec_clean_trim_def spec_remove_special_def js_def
      spec_handler_len_def spec_newlines_def js_trim_def is_space_def is_word_def ascii_lower_def)

subsection \<open>Clean texts\<close>

lemma remove_special_id:
  "list_all (\<lambda>c. c \<notin> {0x3C, 0x3E, 0x22, 0x27, 0x60}) s \<Longrightarrow> spec_remove_special s = s"
  unfolding spec_remove_special_def by (induction s) auto

lemma remove_ci_id: "\<not> contains_ci lit s \<Longrightarrow> spec_remove_ci lit s = s"
  by (induction s) auto

lemma remove_handlers_id: "\<not> contains_handler s \<Longrightarrow> spec_remove_handlers s = s"
  by (induction s) auto

lemma newlines_id: "list_all (\<lambda>c. c \<noteq> 0x0D \<and> c \<noteq> 0x0A) s \<Longrightarrow> spec_newlines s = s"
  unfolding spec_newlines_def by (induction s) auto

lemma collapse_no_runs: "no_space_runs s \<Longrightarrow> spec_collapse s = map to_space s"
  by (induction s rule: spec_collapse.induct) (auto simp: to_space_def)

lemma is_space_to_space [simp]: "is_space (to_space c) = is_space c"
  by (simp add: to_space_def is_space_def)

lemma dropWhile_hd: "xs = [] \<or> \<not> P (hd xs) \<Longrightarrow> dropWhile P xs = xs"
  by (cases xs) auto

lemma trim_id: "\<not> untrimmed s \<Longrightarrow> js_trim s = s"
proof (cases s)
  case Nil
  then show ?thesis by (simp add: js_trim_def)
next
  case (Cons c cs)
  assume "\<not> untrimmed s"
  then have h: "\<not> is_space (hd s)" and l: "\<not> is_space (last s)"
    using Cons by (auto simp: untrimmed_def)
  have "dropWhile is_space s = s" using h Cons by simp
  moreover have "hd (rev s) = last s" using Cons by (simp add: hd_rev)
  then have "dropWhile is_space (rev s) = rev s"
    using l by (intro dropWhile_hd) simp
  ultimately show ?thesis by (simp add: js_trim_def)
qed

lemma untrimmed_map: "untrimmed (map to_space s) = untrimmed s"
  by (cases s) (auto simp: untrimmed_def hd_map last_map)

lemma clean_trim_clean: "clean_text s \<Longrightarrow> spec_clean_trim s = map to_space s"
  unfolding clean_text_def spec_clean_trim_def
  by (simp add: remove_special_id remove_ci_id remove_handlers_id newlines_id collapse_no_runs
      trim_id untrimmed_map)

lemma to_space_cases: "to_space c = c \<or> (is_space c \<and> to_space c = 0x20)"
  by (simp add: to_space_def)

lemma lower_to_space:
  assumes "ascii_lower p \<noteq> 0x20"
  shows "ascii_lower (to_space c) = ascii_lower p \<longleftrightarrow> ascii_lower c = ascii_lower p \<and> \<not> is_space c"
proof (cases "is_space c")
  case True
  have "ascii_lower (0x20 :: cu) = 0x20" by (simp add: ascii_lower_def)
  moreover have "ascii_lower c = c" using True
    by (auto simp: ascii_lower_def is_space_def word_le_nat_alt)
  ultimately show ?thesis using True assms by (auto simp: to_space_def)
next
  case False
  then show ?thesis by (simp add: to_space_def)
qed

lemma starts_with_to_space:
  "list_all (\<lambda>p. ascii_lower p \<noteq> 0x20) lit \<Longrightarrow>
   starts_with_ci lit (map to_space s) \<Longrightarrow> starts_with_ci lit s"
  by (induction lit s rule: starts_with_ci.induct) (auto simp: lower_to_space)

lemma contains_ci_to_space:
  "list_all (\<lambda>p. ascii_lower p \<noteq> 0x20) lit \<Longrightarrow>
   contains_ci lit (map to_space s) \<Longrightarrow> contains_ci lit s"
  by (induction s) (auto dest: starts_with_to_space [where s = "_ # _", simplified]
      starts_with_to_space [where s = "[]", simplified])

lemma is_word_to_space [simp]: "is_word (to_space c) = is_word c"
  using word_not_space [of c] by (auto simp: to_space_def is_word_def)

lemma to_space_eq_sign [simp]: "to_space c = 0x3D \<longleftrightarrow> c = 0x3D"
  using space_not_eq [of c] by (auto simp: to_space_def)

lemma takeWhile_to_space:
  "(\<And>c. P (to_space c) = P c) \<Longrightarrow> takeWhile P (map to_space s) = map to_space (takeWhile P s)"
  by (induction s) auto

lemma dropWhile_to_space:
  "(\<And>c. P (to_space c) = P c) \<Longrightarrow> dropWhile P (map to_space s) = map to_space (dropWhile P s)"
  by (induction s) auto

lemma take1_to_space: "take (Suc 0) (map to_space r) = [0x3D] \<longleftrightarrow> take (Suc 0) r = [0x3D]"
  by (cases r) auto

lemma on_letters: "list_all (\<lambda>p. ascii_lower p \<noteq> 0x20) (js ''on'')"
  by (simp add: js_def ascii_lower_def)

lemma javascript_letters: "list_all (\<lambda>p. ascii_lower p \<noteq> 0x20) (js ''javascript:'')"
  by (simp add: js_def ascii_lower_def)

lemma handler_len_to_space:
  "0 < spec_handler_len (map to_space s) \<Longrightarrow> 0 < spec_handler_len s"
  using starts_with_to_space [OF on_letters, of s]
  by (auto simp: spec_handler_len_def Let_def drop_map takeWhile_to_space dropWhile_to_space
      take1_to_space split: if_splits)

lemma contains_handler_to_space:
  "contains_handler (map to_space s) \<Longrightarrow> contains_handler s"
  by (induction s) (auto dest: handler_len_to_space [where s = "_ # _", simplified])

lemma no_space_runs_to_space: "no_space_runs (map to_space s) = no_space_runs s"
  by (induction s rule: no_space_runs.induct) auto

lemma to_space_not_special:
  "c \<notin> {0x3C, 0x3E, 0x22, 0x27, 0x60} \<Longrightarrow> to_space c \<notin> {0x3C, 0x3E, 0x22, 0x27, 0x60}"
  by (auto simp: to_space_def)

lemma to_space_not_newline: "to_space c \<noteq> 0x0D \<and> to_space c \<noteq> 0x0A"
  by (auto simp: to_space_def is_space_def)

lemma clean_text_to_space:
  assumes "clean_text s"
  shows "clean_text (map to_space s)"
proof -
  have 1: "list_all (\<lambda>c. c \<notin> {0x3C, 0x3E, 0x22, 0x27, 0x60}) (map to_space s)"
    using assms to_space_not_special unfolding clean_text_def list_all_iff by auto
  have 2: "\<not> contains_ci (js ''javascript:'') (map to_space s)"
    using assms contains_ci_to_space [OF javascript_letters, of s] unfolding clean_text_def by blast
  have 3: "\<not> contains_handler (map to_space s)"
    using assms contains_handler_to_space [of s] unfolding clean_text_def by blast
  have 4: "list_all (\<lambda>c. c \<noteq> 0x0D \<and> c \<noteq> 0x0A) (map to_space s)"
    using to_space_not_newline unfolding list_all_iff by auto
  have 5: "no_space_runs (map to_space s)" "\<not> untrimmed (map to_space s)"
    using assms unfolding clean_text_def by (simp_all add: no_space_runs_to_space untrimmed_map)
  show ?thesis
    unfolding clean_text_def using 1 2 3 4 5 by blast
qed

lemma to_space_idem [simp]: "to_space (to_space c) = to_space c"
  by (simp add: to_space_def is_space_def)

lemma sanitize_clean:
  "clean_text s \<Longrightarrow> length s \<le> 2000 \<Longrightarrow> sanitizeInput (JStr s) = map to_space s"
  by (simp add: sanitize_str spec_sanitize_def clean_trim_clean)

lemma sanitize_idem_clean:
  assumes "clean_text s" "length s \<le> 2000"
  shows "sanitizeInput (JStr (sanitizeInput (JStr s))) = sanitizeInput (JStr s)"
proof -
  have "sanitizeInput (JStr (map to_space s)) = map to_space (map to_space s)"
    using assms by (intro sanitize_clean clean_text_to_space) simp_all
  then show ?thesis using assms by (simp add: sanitize_clean)
qed

subsection \<open>Leading and trailing whitespace of the result\<close>

lemma trim_prefix: "\<exists>z. dropWhile is_space t = js_trim t @ z"
proof -
  let ?u = "dropWhile is_space t"
  have "rev ?u = takeWhile is_space (rev ?u) @ dropWhile is_space (rev ?u)" by simp
  then have "?u = rev (dropWhile is_space (rev ?u)) @ rev (takeWhile is_space (rev ?u))"
    by (metis rev_append rev_rev_ident)
  then show ?thesis unfolding js_trim_def by blast
qed

lemma trim_hd: "js_trim t \<noteq> [] \<Longrightarrow> \<not> is_space (hd (js_trim t))"
proof -
  assume ne: "js_trim t \<noteq> []"
  obtain z where z: "dropWhile is_space t = js_trim t @ z" using trim_prefix by blast
  then have "dropWhile is_space t \<noteq> []" using ne by simp
  then have "\<not> is_space (hd (dropWhile is_space t))" by (rule hd_dropWhile)
  moreover have "hd (dropWhile is_space t) = hd (js_trim t)" using z ne by simp
  ultimately show ?thesis by simp
qed

lemma sanitize_no_leading_space:
  "sanitizeInput v \<noteq> [] \<Longrightarrow> \<not> is_space (hd (sanitizeInput v))"
proof -
  assume ne: "sanitizeInput v \<noteq> []"
  then obtain t where t: "sanitizeInput v = take 2000 (js_trim t)"
    by (auto simp: sanitizeInput_def substring0_def split: if_splits)
  then have "js_trim t \<noteq> []" using ne by auto
  moreover have "hd (take 2000 (js_trim t)) = hd (js_trim t)" by (simp add: hd_take)
  ultimately show ?thesis using t trim_hd by simp
qed

lemma last_take_Suc: "n < length xs \<Longrightarrow> last (take (Suc n) xs) = xs ! n"
  by (simp add: take_Suc_conv_app_nth)

lemma sanitize_trailing_space:
  assumes "2000 < length (spec_clean_trim s)" "is_space (spec_clean_trim s ! 1999)"
  shows "sanitizeInput (JStr s) \<noteq> [] \<and> is_space (last (sanitizeInput (JStr s)))"
proof -
  let ?t = "spec_clean_trim s"
  have "take 2000 ?t \<noteq> []" using assms by auto
  moreover have "last (take 2000 ?t) = ?t ! 1999"
    using assms(1) last_take_Suc [of 1999 ?t] by simp
  ultimately show ?thesis using assms by (simp add: sanitize_str spec_sanitize_def)
qed

lemma starts_with_ci_set:
  "starts_with_ci l t \<Longrightarrow> p \<in> set l \<Longrightarrow> ascii_lower p \<in> ascii_lower ` set t"
  by (induction l t rule: starts_with_ci.induct) auto

lemma contains_ci_set:
  "contains_ci lit s \<Longrightarrow> p \<in> set lit \<Longrightarrow> ascii_lower p \<in> ascii_lower ` set s"
proof (induction s)
  case Nil
  then show ?case using starts_with_ci_set [of lit "[]" p] by simp
next
  case (Cons a s)
  show ?case
  proof (cases "starts_with_ci lit (a # s)")
    case True
    then show ?thesis using starts_with_ci_set [of lit "a # s" p] Cons.prems by blast
  next
    case False
    then have "ascii_lower p \<in> ascii_lower ` set s" using Cons by simp
    then show ?thesis by auto
  qed
qed

lemma handler_len_set: "0 < spec_handler_len t \<Longrightarrow> 0x3D \<in> set t"
proof -
  assume "0 < spec_handler_len t"
  then have "take 1 (dropWhile is_space (dropWhile is_word (drop 2 t))) = [0x3D]"
    by (auto simp: spec_handler_len_def Let_def split: if_splits)
  then have "0x3D \<in> set (dropWhile is_space (dropWhile is_word (drop 2 t)))"
    by (metis in_set_takeD list.set_intros(1))
  then show ?thesis
    by (meson in_set_dropD set_dropWhileD)
qed

lemma contains_handler_set: "contains_handler s \<Longrightarrow> 0x3D \<in> set s"
  by (induction s) (auto dest: handler_len_set)

lemma no_space_runs_Cons: "\<not> is_space a \<Longrightarrow> no_space_runs (a # xs) = no_space_runs xs"
  by (cases xs) auto

lemma no_space_runs_replicate:
  "\<not> is_space a \<Longrightarrow> no_space_runs (replicate n a @ xs) = no_space_runs xs"
  by (induction n) (auto simp: no_space_runs_Cons)

lemma long_input_clean: "0 < n \<Longrightarrow> clean_text (long_input n)"
proof -
  assume n: "0 < n"
  have set: "set (long_input n) = {0x61, 0x20, 0x62}"
    using n by (auto simp: long_input_def)
  have 1: "list_all (\<lambda>c. c \<notin> {0x3C, 0x3E, 0x22, 0x27, 0x60}) (long_input n)"
    by (simp add: list_all_iff set)
  have "ascii_lower 0x3A \<notin> ascii_lower ` set (long_input n)"
    by (simp add: set ascii_lower_def)
  moreover have "0x3A \<in> set (js ''javascript:'')" by (simp add: js_def)
  ultimately have 2: "\<not> contains_ci (js ''javascript:'') (long_input n)"
    using contains_ci_set by blast
  have 3: "\<not> contains_handler (long_input n)"
    using contains_handler_set [of "long_input n"] by (auto simp: set)
  have 4: "list_all (\<lambda>c. c \<noteq> 0x0D \<and> c \<noteq> 0x0A) (long_input n)"
    by (simp add: list_all_iff set)
  have 5: "no_space_runs (long_input n)"
    by (simp add: long_input_def no_space_runs_replicate is_space_def)
  have "hd (long_input n) = 0x61" using n by (cases n) (simp_all add: long_input_def)
  moreover have "last (long_input n) = 0x62" by (simp add: long_input_def)
  ultimately have 6: "\<not> untrimmed (long_input n)"
    by (simp add: untrimmed_def is_space_def)
  show ?thesis unfolding clean_text_def using 1 2 3 4 5 6 by blast
qed

lemma long_input_fixed: "0 < n \<Longrightarrow> spec_clean_trim (long_input n) = long_input n"
proof -
  assume n: "0 < n"
  have "map to_space (long_input n) = long_input n"
    by (simp add: long_input_def to_space_def is_space_def)
  then show ?thesis using long_input_clean [OF n] by (simp add: clean_trim_clean)
qed

lemma long_input_trailing:
  "sanitizeInput (JStr (long_input 1999)) \<noteq> [] \<and>
   is_space (last (sanitizeInput (JStr (long_input 1999))))"
proof (rule sanitize_trailing_space)
  show "2000 < length (spec_clean_trim (long_input 1999))"
    by (simp add: long_input_fixed) (simp add: long_input_def)
  have "long_input 1999 ! 1999 = 0x20"
    by (simp add: long_input_def nth_append)
  then show "is_space (spec_clean_trim (long_input 1999) ! 1999)"
    by (simp add: long_input_fixed) (simp add: is_space_def)
qed

section \<open>Facts about the handlers\<close>

lemmas handler_defs = generate_voice_handler_def process_text_handler_def extract_and_process_handler_def
  generate_handler_def server_generate_voice_def server_process_text_def server_extract_and_process_def
  server_generate_def backend_generate_def

lemmas spec_eval = sanitize_str spec_sanitize_def spec_clean_trim_def spec_remove_special_def js_def
  spec_handler_len_def spec_newlines_def js_trim_def is_space_def is_word_def ascii_lower_def

lemma js_nonempty: "s \<noteq> [] \<Longrightarrow> js s \<noteq> []"
  by (simp add: js_def)

lemma trimmed_blank: "absent_or_blank v \<Longrightarrow> trimmed_text e v = Inr []"
  by (cases v) auto

lemma destructure_some: "req_body req = Some b \<Longrightarrow> destructure e field req = Inr b"
  by (simp add: destructure_def)

lemma destructure_none:
  "req_body req = None \<Longrightarrow> destructure e field req = Inl (type_error e (cannot_destructure field))"
  by (simp add: destructure_def)

subsection \<open>What stands in front of a route\<close>

lemma gate_post: "req_method req = ''POST'' \<Longrightarrow> method_gate hs req run = run"
  by (simp add: method_gate_def)

lemma app_post_post: "req_method req = ''POST'' \<Longrightarrow> app_post path req run = run"
  by (simp add: app_post_def)

lemma backend_front_post: "req_method req = ''POST'' \<Longrightarrow> backend_front req run = run"
  by (simp add: backend_front_def)

lemma server_front_post:
  "req_method req = ''POST'' \<Longrightarrow> admitted e req \<Longrightarrow> server_front e req run = run"
  by (simp add: server_front_def admitted_def)





subsection \<open>The \<^verbatim>\<open>catch\<close> blocks\<close>

lemma rejected_generic:
  "m \<noteq> [] \<Longrightarrow> rejected_early (catch_generic hs (Inr (400, [(''error'', m)]), []))"
  by (simp add: rejected_early_def catch_generic_def respond_def)

lemma rejected_echo:
  "m \<noteq> [] \<Longrightarrow> rejected_early (catch_echo e hs (Inr (400, [(''error'', m)]), []))"
  by (simp add: rejected_early_def catch_echo_def respond_def)

lemma payload_generic:
  "payload (reply (catch_generic hs (Inr (st, fs), cs))) = Json fs"
  by (simp add: catch_generic_def respond_def)

lemma payload_echo:
  "payload (reply (catch_echo e hs (Inr (st, fs), cs))) = Json fs"
  by (simp add: catch_echo_def respond_def)

lemma generic_on_failure:
  "failure (catch_generic hs a) \<noteq> None \<Longrightarrow>
   reply (catch_generic hs a) = respond hs 500 [(''error'', generic_message)]"
  by (cases a) (auto simp: catch_generic_def split: sum.splits prod.splits)

lemma catch_generic_200:
  assumes "status (reply (catch_generic hs a)) = 200"
  shows "\<exists>fs cs. a = (Inr (200, fs), cs)"
  using assms
  by (cases a) (auto simp: catch_generic_def respond_def split: sum.splits prod.splits)

lemma catch_echo_200:
  assumes "status (reply (catch_echo e hs a)) = 200"
  shows "\<exists>fs cs. a = (Inr (200, fs), cs)"
  using assms
  by (cases a) (auto simp: catch_echo_def respond_def split: sum.splits prod.splits)

subsection \<open>A required text field\<close>

lemma blank_generate_voice_try:
  "req_body req = Some b \<Longrightarrow> absent_or_blank (body_text b) \<Longrightarrow>
   generate_voice_try e svc req =
     (Inr (400, [(''error'', js ''Story text is required to generate voiceover.'')]), [])"
  by (simp add: generate_voice_try_def destructure_some trimmed_blank)

lemma blank_process_text_try:
  "req_body req = Some b \<Longrightarrow> absent_or_blank (body_text b) \<Longrightarrow>
   process_text_try e svc req =
     (Inr (400, [(''error'', js ''Text is required. Please provide text to process.'')]), [])"
  by (simp add: process_text_try_def destructure_some trimmed_blank)

lemma blank_generate_try:
  "req_body req = Some b \<Longrightarrow> absent_or_blank (body_text b) \<Longrightarrow>
   generate_try e svc req =
     (Inr (400, [(''error'', js ''Text is required. Please provide a story idea or topic.'')]), [])"
  by (simp add: generate_try_def destructure_some trimmed_blank)

lemma blank_generate_sanitized_try:
  "req_body req = Some b \<Longrightarrow> absent_or_blank (body_text b) \<Longrightarrow>
   generate_sanitized_try e svc req =
     (Inr (400, [(''error'', js ''Text is required. Please provide a story idea or topic.'')]), [])"
  by (simp add: generate_sanitized_try_def destructure_some trimmed_blank)

lemma blank_text_routes:
  assumes "req_method req = ''POST''" "req_body req = Some b" "absent_or_blank (body_text b)"
  shows "rejected_early (generate_voice_handler e svc req)"
    and "rejected_early (process_text_handler e svc req)"
    and "rejected_early (generate_handler e svc req)"
    and "rejected_early (backend_generate e svc req)"
    and "admitted e req \<Longrightarrow> rejected_early (server_generate_voice e svc req)"
    and "admitted e req \<Longrightarrow> rejected_early (server_process_text e svc req)"
    and "admitted e req \<Longrightarrow> rejected_early (server_generate e svc req)"
  using assms
  by (simp_all add: handler_defs gate_post app_post_post backend_front_post server_front_post
      blank_generate_voice_try blank_process_text_try
      blank_generate_try blank_generate_sanitized_try rejected_generic rejected_echo js_nonempty)

text \<open>Without a body the destructuring throws, and the \<^verbatim>\<open>catch\<close> answers 500.\<close>

lemma no_body_text_routes:
  assumes "req_method req = ''POST''" "req_body req = None"
  shows "status (reply (generate_voice_handler e svc req)) = 500"
    and "status (reply (process_text_handler e svc req)) = 500"
    and "status (reply (generate_handler e svc req)) = 500"
    and "status (reply (extract_and_process_handler e svc req)) = 500"
  using assms
  by (simp_all add: handler_defs gate_post generate_voice_try_def process_text_try_def
      generate_try_def extract_and_process_try_def destructure_none catch_generic_def
      catch_echo_def respond_def)

subsection \<open>A required image field\<close>

lemma falsy_image_try:
  "req_body req = Some b \<Longrightarrow> \<not> truthy (body_image b) \<Longrightarrow>
   extract_and_process_try vm e svc req =
     (Inr (400, [(''error'', js ''Image is required. Please upload an image.'')]), [])"
  by (simp add: extract_and_process_try_def destructure_some)

lemma falsy_image_routes:
  assumes "req_method req = ''POST''" "req_body req = Some b" "\<not> truthy (body_image b)"
  shows "rejected_early (extract_and_process_handler e svc req)"
    and "admitted e req \<Longrightarrow> rejected_early (server_extract_and_process e svc req)"
  using assms
  by (simp_all add: handler_defs gate_post app_post_post server_front_post falsy_image_try
      rejected_generic js_nonempty)

subsection \<open>Text that is sanitized to nothing\<close>

lemma emptied_generate_voice_try:
  "req_body req = Some b \<Longrightarrow> body_text b = JStr s \<Longrightarrow> js_trim s \<noteq> [] \<Longrightarrow>
   sanitizeInput (JStr (js_trim s)) = [] \<Longrightarrow>
   generate_voice_try e svc req =
     (Inr (400, [(''error'', js ''Invalid story text. Please provide valid text to generate voiceover.'')]), [])"
  by (simp add: generate_voice_try_def destructure_some)

lemma emptied_process_text_try:
  "req_body req = Some b \<Longrightarrow> body_text b = JStr s \<Longrightarrow> js_trim s \<noteq> [] \<Longrightarrow>
   sanitizeInput (JStr (js_trim s)) = [] \<Longrightarrow>
   process_text_try e svc req =
     (Inr (400, [(''error'', js ''Invalid input. Please provide valid text to process.'')]), [])"
  by (simp add: process_text_try_def destructure_some)

lemma emptied_generate_sanitized_try:
  "req_body req = Some b \<Longrightarrow> body_text b = JStr s \<Longrightarrow> js_trim s \<noteq> [] \<Longrightarrow>
   sanitizeInput (JStr (js_trim s)) = [] \<Longrightarrow>
   generate_sanitized_try e svc req =
     (Inr (400, [(''error'', js ''Invalid input. Please provide valid text.'')]), [])"
  by (simp add: generate_sanitized_try_def destructure_some)

lemma emptied_text_routes:
  assumes "req_method req = ''POST''" "req_body req = Some b" "body_text b = JStr s"
    "js_trim s \<noteq> []" "sanitizeInput (JStr (js_trim s)) = []"
  shows "rejected_early (generate_voice_handler e svc req)"
    and "rejected_early (process_text_handler e svc req)"
    and "admitted e req \<Longrightarrow> rejected_early (server_generate_voice e svc req)"
    and "admitted e req \<Longrightarrow> rejected_early (server_process_text e svc req)"
    and "admitted e req \<Longrightarrow> rejected_early (server_generate e svc req)"
  using assms
  by (simp_all add: handler_defs gate_post app_post_post server_front_post
      emptied_generate_voice_try [of req b s] emptied_process_text_try [of req b s]
      emptied_generate_sanitized_try [of req b s] rejected_generic rejected_echo js_nonempty)

lemma messages_differ:
  "js ''Story text is required to generate voiceover.'' \<noteq>
     js ''Invalid story text. Please provide valid text to generate voiceover.''"
  "js ''Text is required. Please provide text to process.'' \<noteq>
     js ''Invalid input. Please provide valid text to process.''"
  "js ''Text is required. Please provide a story idea or topic.'' \<noteq>
     js ''Invalid input. Please provide valid text.''"
  by (simp_all add: js_def)

lemma emptied_differs:
  assumes "req_method req' = ''POST''" "req_body req' = Some b'" "absent_or_blank (body_text b')"
    "req_method req = ''POST''" "req_body req = Some b" "body_text b = JStr s" "js_trim s \<noteq> []"
    "sanitizeInput (JStr (js_trim s)) = []"
  shows "payload (reply (generate_voice_handler e svc req')) \<noteq> payload (reply (generate_voice_handler e svc req))"
    and "payload (reply (process_text_handler e svc req')) \<noteq> payload (reply (process_text_handler e svc req))"
    and "admitted e req' \<Longrightarrow> admitted e req \<Longrightarrow>
         payload (reply (server_generate_voice e svc req')) \<noteq> payload (reply (server_generate_voice e svc req))"
    and "admitted e req' \<Longrightarrow> admitted e req \<Longrightarrow>
         payload (reply (server_process_text e svc req')) \<noteq> payload (reply (server_process_text e svc req))"
    and "admitted e req' \<Longrightarrow> admitted e req \<Longrightarrow>
         payload (reply (server_generate e svc req')) \<noteq> payload (reply (server_generate e svc req))"
  using assms messages_differ
  by (simp_all add: handler_defs gate_post app_post_post server_front_post
      blank_generate_voice_try [of req' b'] blank_process_text_try [of req' b']
      blank_generate_sanitized_try [of req' b']
      emptied_generate_voice_try [of req b s] emptied_process_text_try [of req b s]
      emptied_generate_sanitized_try [of req b s] payload_generic payload_echo)

subsection \<open>The extraction\<close>

lemma image_field_truthy:
  "truthy (image_field req) \<Longrightarrow> \<exists>b. req_body req = Some b \<and> body_image b = image_field req"
  by (cases "req_body req") (auto simp: image_field_def)

lemma blank_extraction_try:
  assumes "truthy (image_field req)" "base64ToGeminiFormat e (image_field req) = Inr part"
    "generateVision svc vm extract_prompt part = Resolved t" "js_trim t = []"
  shows "extract_and_process_try vm e svc req =
     (Inr (400, [(''error'',
        js ''No text could be extracted from the image. Please try a different image.'')]),
      [VisionCall vm extract_prompt part])"
proof -
  obtain b where "req_body req = Some b" "body_image b = image_field req"
    using image_field_truthy [OF assms(1)] by blast
  then show ?thesis
    using assms by (simp add: extract_and_process_try_def destructure_some)
qed

lemma blank_extraction_refused:
  assumes "truthy (image_field req)" "base64ToGeminiFormat e (image_field req) = Inr part"
    "generateVision svc vm extract_prompt part = Resolved t" "js_trim t = []"
  shows "extraction_refused (VisionCall vm extract_prompt part)
           (catch_generic hs (extract_and_process_try vm e svc req))"
  using assms
  by (simp add: blank_extraction_try catch_generic_def respond_def extraction_refused_def)

lemma image_story_prompt_text:
  "image_story_prompt x =
     js ''Write a very short, engaging story based on this idea extracted from an image: '' @
     [0x22] @ x @ [0x22] @ prompt_tail"
  by (simp add: image_story_prompt_def)

lemma emptied_extraction_try:
  assumes "req_body req = Some b" "truthy (body_image b)"
    "base64ToGeminiFormat e (body_image b) = Inr part"
    "generateVision svc vm extract_prompt part = Resolved t" "js_trim t \<noteq> []"
    "sanitizeInput (JStr t) = []"
  shows "snd (extract_and_process_try vm e svc req) =
           [VisionCall vm extract_prompt part, GenerateCall flash (image_story_prompt [])]"
    and "\<forall>fs. fst (extract_and_process_try vm e svc req) \<noteq> Inr (400, fs)"
proof -
  have t: "t \<noteq> []" using assms(5) by (auto simp: js_trim_def)
  show "snd (extract_and_process_try vm e svc req) =
           [VisionCall vm extract_prompt part, GenerateCall flash (image_story_prompt [])]"
    using assms t
    by (simp add: extract_and_process_try_def destructure_some Let_def split: settled.splits)
  show "\<forall>fs. fst (extract_and_process_try vm e svc req) \<noteq> Inr (400, fs)"
    using assms t
    by (simp add: extract_and_process_try_def destructure_some Let_def split: settled.splits)
qed

lemma catch_generic_calls: "calls (catch_generic hs a) = snd a"
  by (cases a) (auto simp: catch_generic_def split: sum.splits prod.splits)

lemma catch_generic_400:
  "status (reply (catch_generic hs a)) = 400 \<Longrightarrow> \<exists>fs. fst a = Inr (400, fs)"
  by (cases a) (auto simp: catch_generic_def respond_def split: sum.splits prod.splits)

lemma emptied_extraction:
  assumes "req_body req = Some b" "truthy (body_image b)"
    "base64ToGeminiFormat e (body_image b) = Inr part"
    "generateVision svc vm extract_prompt part = Resolved t" "js_trim t \<noteq> []"
    "sanitizeInput (JStr t) = []"
  shows "calls (catch_generic hs (extract_and_process_try vm e svc req)) =
           [VisionCall vm extract_prompt part, GenerateCall flash (image_story_prompt [])] \<and>
         status (reply (catch_generic hs (extract_and_process_try vm e svc req))) \<noteq> 400"
  using emptied_extraction_try [OF assms] catch_generic_400 [of hs "extract_and_process_try vm e svc req"]
  by (auto simp: catch_generic_calls)

lemma extract_success_try:
  assumes "extract_and_process_try vm e svc req = (Inr (200, fs), cs)"
  shows "\<exists>part t story.
           generateVision svc vm extract_prompt part = Resolved t \<and>
           generateContent svc flash (image_story_prompt (sanitizeInput (JStr t))) = Resolved story \<and>
           fs = [(''extractedText'', t), (''processedStory'', story)] \<and>
           cs = [VisionCall vm extract_prompt part,
                 GenerateCall flash (image_story_prompt (sanitizeInput (JStr t)))]"
  using assms
  by (auto simp: extract_and_process_try_def destructure_def Let_def
      split: if_splits sum.splits settled.splits option.splits)

lemma extract_success:
  assumes "status (reply (catch_generic hs (extract_and_process_try vm e svc req))) = 200"
  shows "\<exists>part t story.
           generateVision svc vm extract_prompt part = Resolved t \<and>
           generateContent svc flash (image_story_prompt (sanitizeInput (JStr t))) = Resolved story \<and>
           payload (reply (catch_generic hs (extract_and_process_try vm e svc req))) =
             Json [(''extractedText'', t), (''processedStory'', story)] \<and>
           calls (catch_generic hs (extract_and_process_try vm e svc req)) =
             [VisionCall vm extract_prompt part,
              GenerateCall flash (image_story_prompt (sanitizeInput (JStr t)))]"
proof -
  obtain fs cs where a: "extract_and_process_try vm e svc req = (Inr (200, fs), cs)"
    using catch_generic_200 [OF assms] by blast
  from extract_success_try [OF a] obtain part t story where
    "generateVision svc vm extract_prompt part = Resolved t"
    "generateContent svc flash (image_story_prompt (sanitizeInput (JStr t))) = Resolved story"
    "fs = [(''extractedText'', t), (''processedStory'', story)]"
    "cs = [VisionCall vm extract_prompt part,
           GenerateCall flash (image_story_prompt (sanitizeInput (JStr t)))]"
    by blast
  then show ?thesis
    unfolding a by (simp add: catch_generic_def respond_def)
qed

lemma server_front_200_post:
  "req_method req = ''POST'' \<Longrightarrow> status (reply (server_front e req run)) = 200 \<Longrightarrow>
   server_front e req run = run"
  by (auto simp: server_front_def respond_def split: if_splits)

subsection \<open>Concrete values\<close>

lemma sanitize_Hi: "sanitizeInput (JStr (js ''Hi'')) = js ''Hi''"
  by (simp add: spec_eval)

lemma sanitize_markup_only: "sanitizeInput (JStr (js ''<>'')) = []"
  by (simp add: spec_eval)

lemma sanitize_markup_Hi: "sanitizeInput (JStr (js ''<b>Hi'')) = js ''bHi''"
  by (simp add: spec_eval)

lemma trim_markup_only: "js_trim (js ''<>'') = js ''<>''"
  by (simp add: js_trim_def js_def is_space_def)

lemma trim_spaces: "js_trim (js ''  '') = []"
  by (simp add: js_trim_def js_def is_space_def)

lemma trim_Hi: "js_trim (js ''Hi'') = js ''Hi''"
  by (simp add: js_trim_def js_def is_space_def)

lemma trim_markup_Hi: "js_trim (js ''<b>Hi'') = js ''<b>Hi''"
  by (simp add: js_trim_def js_def is_space_def)

lemma Hi_nonempty: "js ''Hi'' \<noteq> []" "js ''<b>Hi'' \<noteq> []" "js ''bHi'' \<noteq> []" "js ''<>'' \<noteq> []"
  by (simp_all add: js_def)

lemma post_text_simps:
  "req_method (post_text t) = ''POST''"
  "req_body (post_text t) = Some \<lparr>body_text = JStr t, body_image = JUndefined\<rparr>"
  "text_field (post_text t) = JStr t" "image_field (post_text t) = JUndefined"
  "admitted e (post_text t)"
  by (simp_all add: post_text_def text_field_def image_field_def admitted_def origin_allowed_def)

lemma post_image_simps:
  "req_method (post_image i) = ''POST''"
  "req_body (post_image i) = Some \<lparr>body_text = JUndefined, body_image = JStr i\<rparr>"
  "image_field (post_image i) = JStr i"
  "admitted e (post_image i)"
  by (simp_all add: post_image_def image_field_def admitted_def origin_allowed_def)

lemma gemini_format_space:
  "base64ToGeminiFormat e (JStr (js '' '')) = Inr \<lparr>data = js '' '', mimeType = js ''image/png''\<rparr>"
  by (simp add: base64ToGeminiFormat_def re_data_url_def re_mime_def lits_def js_def)

lemma gemini_format_png:
  "base64ToGeminiFormat e (JStr png_url) = Inr \<lparr>data = js ''QUJD'', mimeType = js ''image/png''\<rparr>"
  by (simp add: png_url_def base64ToGeminiFormat_def re_data_url_def re_mime_def lits_def js_def
      is_word_def)

lemma png_url_nonempty: "png_url \<noteq> []"
  by (simp add: png_url_def js_def)

lemma blank_image_run:
  "extract_and_process_try vm env0 (svc_ok (js ''Hi'')) (post_image (js '' '')) =
     (Inr (200, [(''extractedText'', js ''Hi''), (''processedStory'', js ''Hi.'')]),
      [VisionCall vm extract_prompt \<lparr>data = js '' '', mimeType = js ''image/png''\<rparr>,
       GenerateCall flash (image_story_prompt (js ''Hi''))])"
proof -
  have "js '' '' \<noteq> []" by (simp add: js_def)
  then show ?thesis
    by (simp add: extract_and_process_try_def destructure_some post_image_simps gemini_format_space
        svc_ok_def trim_Hi sanitize_Hi Hi_nonempty)
qed

lemma raw_text_run:
  assumes "js_trim t \<noteq> []"
  shows "extract_and_process_try vm env0 (svc_ok t) (post_image png_url) =
     (Inr (200, [(''extractedText'', t), (''processedStory'', js ''Hi.'')]),
      [VisionCall vm extract_prompt \<lparr>data = js ''QUJD'', mimeType = js ''image/png''\<rparr>,
       GenerateCall flash (image_story_prompt (sanitizeInput (JStr t)))])"
proof -
  have "t \<noteq> []" using assms by (auto simp: js_trim_def)
  then show ?thesis
    using assms
    by (simp add: extract_and_process_try_def destructure_some post_image_simps gemini_format_png
        png_url_nonempty svc_ok_def)
qed

subsection \<open>The synthesis step\<close>























subsection \<open>Methods\<close>

lemma allow_headers_restricted: "''Access-Control-Allow-Headers'' \<in> fst ` set (restricted_cors e req)"
  by (simp add: restricted_cors_def)

lemma allow_headers_open: "''Access-Control-Allow-Headers'' \<in> fst ` set open_cors"
  by (simp add: open_cors_def)

lemma gate_options:
  "req_method req = ''OPTIONS'' \<Longrightarrow> ''Access-Control-Allow-Headers'' \<in> fst ` set hs \<Longrightarrow>
   preflight_ok (method_gate hs req run)"
  by (simp add: method_gate_def preflight_ok_def)

lemma gate_other:
  "req_method req \<noteq> ''OPTIONS'' \<Longrightarrow> req_method req \<noteq> ''POST'' \<Longrightarrow>
   method_refused (method_gate hs req run)"
  by (simp add: method_gate_def method_refused_def respond_def)

lemma function_routes_methods:
  "\<forall>h \<in> set function_routes.
     (req_method req = ''OPTIONS'' \<longrightarrow> preflight_ok (h e svc req)) \<and>
     (req_method req \<noteq> ''POST'' \<and> req_method req \<noteq> ''OPTIONS'' \<longrightarrow> method_refused (h e svc req))"
  by (simp add: function_routes_def generate_voice_handler_def process_text_handler_def
      extract_and_process_handler_def generate_handler_def gate_options gate_other
      allow_headers_restricted allow_headers_open)

lemma server_front_not_post:
  "req_method req \<noteq> ''POST'' \<Longrightarrow>
   calls (server_front e req (app_post path req run)) = [] \<and>
   status (reply (server_front e req (app_post path req run))) \<in> {200, 404, 429, 500} \<and>
   (admitted e req \<and> req_method req \<noteq> ''OPTIONS'' \<longrightarrow>
      status (reply (server_front e req (app_post path req run))) = 404) \<and>
   (origin_allowed e req \<and> req_method req = ''OPTIONS'' \<longrightarrow>
      status (reply (server_front e req (app_post path req run))) = 200 \<and>
      payload (reply (server_front e req (app_post path req run))) = NoBody)"
  by (simp add: server_front_def app_post_def respond_def admitted_def)

lemma backend_front_not_post:
  "req_method req \<noteq> ''POST'' \<Longrightarrow>
   calls (backend_front req (app_post path req run)) = [] \<and>
   status (reply (backend_front req (app_post path req run))) \<in> {204, 404} \<and>
   (req_method req \<noteq> ''OPTIONS'' \<longrightarrow>
      status (reply (backend_front req (app_post path req run))) = 404) \<and>
   (req_method req = ''OPTIONS'' \<longrightarrow>
      status (reply (backend_front req (app_post path req run))) = 204 \<and>
      payload (reply (backend_front req (app_post path req run))) = NoBody)"
  by (simp add: backend_front_def app_post_def)

lemma server_routes_methods:
  "\<forall>h \<in> set server_routes.
     req_method req \<noteq> ''POST'' \<longrightarrow>
       calls (h e svc req) = [] \<and> status (reply (h e svc req)) \<noteq> 405 \<and>
       (admitted e req \<and> req_method req \<noteq> ''OPTIONS'' \<longrightarrow> status (reply (h e svc req)) = 404)"
proof -
  have s: "calls (server_front e req (app_post path req run)) = [] \<and>
        status (reply (server_front e req (app_post path req run))) \<noteq> 405 \<and>
        (admitted e req \<and> req_method req \<noteq> ''OPTIONS'' \<longrightarrow>
           status (reply (server_front e req (app_post path req run))) = 404)"
    if "req_method req \<noteq> ''POST''" for path run
    using server_front_not_post [OF that, of e path run] by auto
  have b: "calls (backend_front req (app_post path req run)) = [] \<and>
        status (reply (backend_front req (app_post path req run))) \<noteq> 405 \<and>
        (admitted e req \<and> req_method req \<noteq> ''OPTIONS'' \<longrightarrow>
           status (reply (backend_front req (app_post path req run))) = 404)"
    if "req_method req \<noteq> ''POST''" for path run
    using backend_front_not_post [OF that, of path run] by auto
  show ?thesis
    using s b
    by (simp add: server_routes_def gated_server_routes_def server_generate_voice_def
        server_process_text_def server_extract_and_process_def server_generate_def
        backend_generate_def)
qed

lemma server_routes_preflight:
  "(\<forall>h \<in> set gated_server_routes.
      req_method req = ''OPTIONS'' \<and> origin_allowed e req \<longrightarrow>
        status (reply (h e svc req)) = 200 \<and> payload (reply (h e svc req)) = NoBody \<and>
        headers (reply (h e svc req)) = []) \<and>
   (req_method req = ''OPTIONS'' \<longrightarrow>
      status (reply (backend_generate e svc req)) = 204 \<and>
      payload (reply (backend_generate e svc req)) = NoBody)"
  by (simp add: gated_server_routes_def server_generate_voice_def
      server_process_text_def server_extract_and_process_def server_generate_def
      backend_generate_def server_front_def backend_front_def)

subsection \<open>Concrete runs\<close>

lemma synthesize_ok: "synthesize e (svc_ok x) t = Inr [0x49]"
  by (simp add: synthesize_def svc_ok_def drain_def data_events_def)

lemma story_rejected:
  "story_and_audio e (svc_generation_fails m) t =
     (Inl (new_error e (js ''Failed to generate story: '' @ m)), [GenerateCall flash (story_prompt t)])"
  by (simp add: story_and_audio_def svc_generation_fails_def)

lemma story_ok:
  "story_and_audio e (svc_ok x) t =
     (Inr (200, [(''text'', js ''Hi.''), (''audioBase64'', base64 [0x49]), (''audioMime'', js ''audio/mpeg'')]),
      [GenerateCall flash (story_prompt t), SpeechCall (voiceId e) (js ''Hi.'')])"
proof -
  have "generateContent (svc_ok x) flash (story_prompt t) = Resolved (js ''Hi.'')"
    by (simp add: svc_ok_def)
  then show ?thesis by (simp add: story_and_audio_def synthesize_ok)
qed

lemma message_nonempty: "js ''Failed to generate story: '' \<noteq> []"
  by (simp add: js_def)

lemma generate_try_Hi:
  "generate_try e svc (post_text (js ''Hi'')) = story_and_audio e svc (js ''Hi'')"
  "generate_sanitized_try e svc (post_text (js ''Hi'')) = story_and_audio e svc (js ''Hi'')"
  by (simp_all add: generate_try_def generate_sanitized_try_def destructure_some post_text_simps
      trim_Hi sanitize_Hi Hi_nonempty)

lemma generate_try_markup:
  "generate_try e svc (post_text (js ''<b>Hi'')) = story_and_audio e svc (js ''<b>Hi'')"
  "generate_sanitized_try e svc (post_text (js ''<b>Hi'')) = story_and_audio e svc (js ''bHi'')"
  by (simp_all add: generate_try_def generate_sanitized_try_def destructure_some post_text_simps
      trim_markup_Hi sanitize_markup_Hi Hi_nonempty)

lemma post_runs:
  "generate_handler e svc (post_text t) = catch_echo e open_cors (generate_try e svc (post_text t))"
  "backend_generate e svc (post_text t) = catch_echo e [] (generate_try e svc (post_text t))"
  "server_generate e svc (post_text t) = catch_echo e [] (generate_sanitized_try e svc (post_text t))"
  "generate_voice_handler e svc (post_text t) =
     catch_generic (restricted_cors e (post_text t)) (generate_voice_try e svc (post_text t))"
  "process_text_handler e svc (post_text t) =
     catch_generic (restricted_cors e (post_text t)) (process_text_try e svc (post_text t))"
  "extract_and_process_handler e svc (post_text t) =
     catch_generic (restricted_cors e (post_text t)) (extract_and_process_try pro e svc (post_text t))"
  by (simp_all add: handler_defs gate_post app_post_post backend_front_post server_front_post
      post_text_simps)

lemma post_image_runs:
  "extract_and_process_handler e svc (post_image i) =
     catch_generic (restricted_cors e (post_image i)) (extract_and_process_try pro e svc (post_image i))"
  "server_extract_and_process e svc (post_image i) =
     catch_generic [] (extract_and_process_try flash e svc (post_image i))"
  by (simp_all add: handler_defs gate_post app_post_post server_front_post post_image_simps)



section \<open>Claims about the sanitizer\<close>

text \<open>
  C1. \<open>sanitizeInput\<close> is total and returns a string. For an input that is absent or
  not a string the result is empty. For a string it is the result of, in this order:
  removing every \<open><\<close>, \<open>>\<close>, double quote, single quote and backtick; removing every
  case-insensitive occurrence of \<open>javascript:\<close>; removing every case-insensitive
  \<open>on\<close>, word characters, optional whitespace, \<open>=\<close>; replacing each CR and LF by a
  space; collapsing each whitespace run to one space; trimming; keeping the first 2000
  code units. So the result never exceeds 2000 code units, and
  \<open>sanitize(" a   b\n c ") = "a b c"\<close>.
\<close>

theorem C1_sanitize_contract:
  "(\<not> is_string v \<longrightarrow> sanitizeInput v = []) \<and>
   sanitizeInput (JStr s) = spec_sanitize s \<and>
   length (sanitizeInput v) \<le> 2000 \<and>
   sanitizeInput (JStr (js '' a   b'' @ [0x0A] @ js '' c '')) = js ''a b c''"
  using sanitize_not_string [of v] sanitize_str [of s] sanitize_length [of v] sanitize_example
  by blast

theorem C1_sanitize_contract_witness:
  "\<not> is_string JNull \<and> sanitizeInput JNull = [] \<and>
   sanitizeInput (JStr (js ''<b>JavaScript:x'')) = spec_sanitize (js ''<b>JavaScript:x'') \<and>
   spec_sanitize (js ''<b>JavaScript:x'') = js ''bx''"
proof -
  have "spec_sanitize (js ''<b>JavaScript:x'') = js ''bx''"
    by (simp add: spec_sanitize_def spec_clean_trim_def spec_remove_special_def js_def
      spec_handler_len_def spec_newlines_def js_trim_def is_space_def is_word_def ascii_lower_def)
  then show ?thesis
    using C1_sanitize_contract [of JNull "js ''<b>JavaScript:x''"] by simp
qed


text \<open>
  C7. On an already-clean ASCII string (none of the five special characters, no
  \<open>javascript:\<close>, no handler pattern, no line break, no repeated whitespace, no
  whitespace at either end, at most 2000 code units) the sanitizer is idempotent.
\<close>

theorem C7_sanitize_idempotent:
  "clean_ascii s \<Longrightarrow> sanitizeInput (JStr (sanitizeInput (JStr s))) = sanitizeInput (JStr s)"
  using sanitize_idem_clean [of s] by (simp add: clean_ascii_def)

theorem C7_sanitize_idempotent_witness:
  "clean_ascii (js ''a b c'') \<and>
   sanitizeInput (JStr (sanitizeInput (JStr (js ''a b c'')))) = sanitizeInput (JStr (js ''a b c''))"
proof -
  have "clean_ascii (js ''a b c'')"
    by (simp add: clean_ascii_def clean_text_def untrimmed_def js_def spec_handler_len_def
        is_space_def is_word_def ascii_lower_def)
  then show ?thesis using C7_sanitize_idempotent [of "js ''a b c''"] by simp
qed


text \<open>
  C9. Truncation comes after trimming. Whenever the cleaned and trimmed text is longer
  than 2000 code units and has whitespace at index 1999, the result ends in whitespace;
  1999 letters followed by a space and a letter are such an input. Of every result only
  the first code unit is known not to be whitespace.
\<close>

theorem C9_trailing_space:
  "(\<forall>s. 2000 < length (spec_clean_trim s) \<and> is_space (spec_clean_trim s ! 1999) \<longrightarrow>
        sanitizeInput (JStr s) \<noteq> [] \<and> is_space (last (sanitizeInput (JStr s)))) \<and>
   (sanitizeInput (JStr (long_input 1999)) \<noteq> [] \<and>
      is_space (last (sanitizeInput (JStr (long_input 1999))))) \<and>
   (\<forall>v. sanitizeInput v \<noteq> [] \<longrightarrow> \<not> is_space (hd (sanitizeInput v)))"
  using sanitize_trailing_space long_input_trailing sanitize_no_leading_space by blast

theorem C9_trailing_space_witness:
  "2000 < length (spec_clean_trim (long_input 1999)) \<and>
   is_space (spec_clean_trim (long_input 1999) ! 1999) \<and>
   sanitizeInput (JStr (long_input 1999)) \<noteq> [] \<and>
   is_space (last (sanitizeInput (JStr (long_input 1999)))) \<and>
   \<not> is_space (hd (sanitizeInput (JStr (long_input 1999))))"
proof -
  have a: "2000 < length (spec_clean_trim (long_input 1999))"
    by (simp add: long_input_fixed) (simp add: long_input_def)
  have "long_input 1999 ! 1999 = 0x20"
    by (simp add: long_input_def nth_append)
  then have b: "is_space (spec_clean_trim (long_input 1999) ! 1999)"
    by (simp add: long_input_fixed) (simp add: is_space_def)
  show ?thesis using a b C9_trailing_space by blast
qed


section \<open>Claims about the handlers\<close>

text \<open>
  C2. Every route answers an unhandled failure with status 500 and a generic message:
  no stack trace in the body, no upstream error detail echoed.

  The \<^verbatim>\<open>/api/generate\<close> copies do otherwise. When the generation service rejects
  with a message, the function and the server route answer 500 with
  \<open>Failed to generate story: \<close> followed by that message, and under
  \<^verbatim>\<open>NODE_ENV=development\<close> the body also holds \<^verbatim>\<open>err.stack\<close>. The other routes
  answer every caught error with the one generic message (\<open>generic_on_failure\<close>).
\<close>

theorem C2_generate_echoes_upstream:
  "reply (generate_handler env0 (svc_generation_fails (js ''API key AIza123 not valid'')) (post_text (js ''Hi''))) =
     respond open_cors 500 [(''error'', js ''Failed to generate story: '' @ js ''API key AIza123 not valid'')] \<and>
   reply (server_generate env0 (svc_generation_fails (js ''API key AIza123 not valid'')) (post_text (js ''Hi''))) =
     respond [] 500 [(''error'', js ''Failed to generate story: '' @ js ''API key AIza123 not valid'')] \<and>
   reply (generate_handler env_dev (svc_generation_fails (js ''API key AIza123 not valid'')) (post_text (js ''Hi''))) =
     respond open_cors 500
       [(''error'', js ''Failed to generate story: '' @ js ''API key AIza123 not valid''),
        (''details'', js ''Error: '' @ js ''Failed to generate story: '' @ js ''API key AIza123 not valid'' @
           0x0A # js ''    at handler (api/generate.js:62:19)'')]"
  by (simp add: post_runs generate_try_Hi story_rejected
      catch_echo_def new_error_def message_nonempty env0_def env_dev_def)

theorem C2_generate_echoes_upstream_witness:
  "status (reply (generate_handler env0 (svc_generation_fails (js ''API key AIza123 not valid''))
     (post_text (js ''Hi'')))) = 500 \<and>
   payload (reply (generate_handler env0 (svc_generation_fails (js ''API key AIza123 not valid''))
     (post_text (js ''Hi'')))) =
     Json [(''error'', js ''Failed to generate story: '' @ js ''API key AIza123 not valid'')]"
  using C2_generate_echoes_upstream by (simp add: respond_def)

text \<open>
  C3. Every handler that forwards user text to the generation service sanitizes it
  before it goes into the prompt; in particular the \<^verbatim>\<open>/api/generate\<close> handlers.

  Of the three copies of \<^verbatim>\<open>/api/generate\<close> only the second server file sanitizes.
  For the text \<open><b>Hi\<close> the function and the first server file send the prompt built
  from \<open><b>Hi\<close>, the second server file the one built from \<open>bHi\<close>.
\<close>

theorem C3_generate_forwards_raw_text:
  "calls (generate_handler env0 (svc_ok []) (post_text (js ''<b>Hi''))) =
     [GenerateCall flash (story_prompt (js ''<b>Hi'')), SpeechCall (voiceId env0) (js ''Hi.'')] \<and>
   calls (backend_generate env0 (svc_ok []) (post_text (js ''<b>Hi''))) =
     [GenerateCall flash (story_prompt (js ''<b>Hi'')), SpeechCall (voiceId env0) (js ''Hi.'')] \<and>
   calls (server_generate env0 (svc_ok []) (post_text (js ''<b>Hi''))) =
     [GenerateCall flash (story_prompt (js ''bHi'')), SpeechCall (voiceId env0) (js ''Hi.'')] \<and>
   sanitizeInput (JStr (js ''<b>Hi'')) = js ''bHi'' \<and>
   story_prompt (js ''<b>Hi'') \<noteq> story_prompt (sanitizeInput (JStr (js ''<b>Hi'')))"
proof -
  have "js ''<b>Hi'' \<noteq> js ''bHi''" by (simp add: js_def)
  then have "story_prompt (js ''<b>Hi'') \<noteq> story_prompt (js ''bHi'')"
    by (simp add: story_prompt_def)
  then show ?thesis
    by (simp add: post_runs generate_try_markup sanitize_markup_Hi story_ok catch_echo_def)
qed

theorem C3_generate_forwards_raw_text_witness:
  "hd (calls (generate_handler env0 (svc_ok []) (post_text (js ''<b>Hi'')))) =
     GenerateCall flash (story_prompt (js ''<b>Hi'')) \<and>
   hd (calls (server_generate env0 (svc_ok []) (post_text (js ''<b>Hi'')))) =
     GenerateCall flash (story_prompt (sanitizeInput (JStr (js ''<b>Hi''))))"
  using C3_generate_forwards_raw_text by simp



text \<open>
  C5, as amended. Take a POST request that reaches the handler (on the second server
  file: from an admitted origin and within the rate limit) with a parsed JSON body.
  On every route whose required field is \<open>text\<close>, if the field is missing, \<open>null\<close> or
  a blank string, the request ends in a 400 JSON error before any upstream call. On the
  image routes the same holds when \<open>image\<close> is missing or falsy; a string of
  whitespace is not rejected there. On the routes that sanitize the text field, a text
  that is not blank but whose trimmed form is sanitized to nothing also ends in a 400
  JSON error before any upstream call, with a body different from that of the
  missing-text answer. The image routes sanitize the extracted text without testing
  the result: extracted text that is not blank but is sanitized to nothing goes on, as
  an empty idea, to the generation call, and the request does not end in 400.
\<close>

theorem C5_required_field:
  "(\<forall>(h, gated) \<in> set text_routes.
      req_method req = ''POST'' \<and> (gated \<longrightarrow> admitted e req) \<and> req_body req = Some b \<and>
      absent_or_blank (body_text b) \<longrightarrow> rejected_early (h e svc req)) \<and>
   (\<forall>(h, gated, vm) \<in> set image_routes.
      req_method req = ''POST'' \<and> (gated \<longrightarrow> admitted e req) \<and> req_body req = Some b \<and>
      \<not> truthy (body_image b) \<longrightarrow> rejected_early (h e svc req)) \<and>
   (\<forall>(h, gated) \<in> set sanitizing_text_routes.
      req_method req = ''POST'' \<and> (gated \<longrightarrow> admitted e req) \<and> req_body req = Some b \<and>
      body_text b = JStr s \<and> js_trim s \<noteq> [] \<and> sanitizeInput (JStr (js_trim s)) = [] \<longrightarrow>
        rejected_early (h e svc req) \<and>
        (\<forall>req' b'. req_method req' = ''POST'' \<and> (gated \<longrightarrow> admitted e req') \<and>
           req_body req' = Some b' \<and> absent_or_blank (body_text b') \<longrightarrow>
           payload (reply (h e svc req')) \<noteq> payload (reply (h e svc req)))) \<and>
   (\<forall>(h, gated, vm) \<in> set image_routes.
      req_method req = ''POST'' \<and> (gated \<longrightarrow> admitted e req) \<and> req_body req = Some b \<and>
      truthy (body_image b) \<and> base64ToGeminiFormat e (body_image b) = Inr part \<and>
      generateVision svc vm extract_prompt part = Resolved t \<and> js_trim t \<noteq> [] \<and>
      sanitizeInput (JStr t) = [] \<longrightarrow>
        calls (h e svc req) =
          [VisionCall vm extract_prompt part, GenerateCall flash (image_story_prompt [])] \<and>
        status (reply (h e svc req)) \<noteq> 400)"
proof (intro conjI)
  show "\<forall>(h, gated) \<in> set text_routes.
      req_method req = ''POST'' \<and> (gated \<longrightarrow> admitted e req) \<and> req_body req = Some b \<and>
      absent_or_blank (body_text b) \<longrightarrow> rejected_early (h e svc req)"
    using blank_text_routes [of req b e svc] by (simp add: text_routes_def)
  show "\<forall>(h, gated, vm) \<in> set image_routes.
      req_method req = ''POST'' \<and> (gated \<longrightarrow> admitted e req) \<and> req_body req = Some b \<and>
      \<not> truthy (body_image b) \<longrightarrow> rejected_early (h e svc req)"
    using falsy_image_routes [of req b e svc] by (simp add: image_routes_def)
  show "\<forall>(h, gated) \<in> set sanitizing_text_routes.
      req_method req = ''POST'' \<and> (gated \<longrightarrow> admitted e req) \<and> req_body req = Some b \<and>
      body_text b = JStr s \<and> js_trim s \<noteq> [] \<and> sanitizeInput (JStr (js_trim s)) = [] \<longrightarrow>
        rejected_early (h e svc req) \<and>
        (\<forall>req' b'. req_method req' = ''POST'' \<and> (gated \<longrightarrow> admitted e req') \<and>
           req_body req' = Some b' \<and> absent_or_blank (body_text b') \<longrightarrow>
           payload (reply (h e svc req')) \<noteq> payload (reply (h e svc req)))"
    using emptied_text_routes [of req b s e svc] emptied_differs [of _ _ req b s e svc]
    by (auto simp: sanitizing_text_routes_def)
  show "\<forall>(h, gated, vm) \<in> set image_routes.
      req_method req = ''POST'' \<and> (gated \<longrightarrow> admitted e req) \<and> req_body req = Some b \<and>
      truthy (body_image b) \<and> base64ToGeminiFormat e (body_image b) = Inr part \<and>
      generateVision svc vm extract_prompt part = Resolved t \<and> js_trim t \<noteq> [] \<and>
      sanitizeInput (JStr t) = [] \<longrightarrow>
        calls (h e svc req) =
          [VisionCall vm extract_prompt part, GenerateCall flash (image_story_prompt [])] \<and>
        status (reply (h e svc req)) \<noteq> 400"
    using emptied_extraction [of req b e part svc _ t]
    by (simp add: image_routes_def extract_and_process_handler_def server_extract_and_process_def
        gate_post app_post_post server_front_post)
qed

theorem C5_required_field_witness:
  "(generate_voice_handler, False) \<in> set text_routes \<and>
   req_method (post_text (js ''  '')) = ''POST'' \<and>
   req_body (post_text (js ''  '')) = Some \<lparr>body_text = JStr (js ''  ''), body_image = JUndefined\<rparr> \<and>
   absent_or_blank (JStr (js ''  '')) \<and>
   rejected_early (generate_voice_handler env0 (svc_ok (js ''<>'')) (post_text (js ''  ''))) \<and>
   (server_extract_and_process, True, flash) \<in> set image_routes \<and>
   admitted env0 (post_text (js ''  '')) \<and>
   \<not> truthy JUndefined \<and>
   rejected_early (server_extract_and_process env0 (svc_ok (js ''<>'')) (post_text (js ''  ''))) \<and>
   (process_text_handler, False) \<in> set sanitizing_text_routes \<and>
   req_method (post_text (js ''<>'')) = ''POST'' \<and>
   req_body (post_text (js ''<>'')) = Some \<lparr>body_text = JStr (js ''<>''), body_image = JUndefined\<rparr> \<and>
   js_trim (js ''<>'') \<noteq> [] \<and>
   sanitizeInput (JStr (js_trim (js ''<>''))) = [] \<and>
   rejected_early (process_text_handler env0 (svc_ok (js ''<>'')) (post_text (js ''<>''))) \<and>
   payload (reply (process_text_handler env0 (svc_ok (js ''<>'')) (post_text (js ''  '')))) \<noteq>
     payload (reply (process_text_handler env0 (svc_ok (js ''<>'')) (post_text (js ''<>''))))"
proof -
  have a: "req_method (post_text (js ''  '')) = ''POST''"
    "req_body (post_text (js ''  '')) = Some \<lparr>body_text = JStr (js ''  ''), body_image = JUndefined\<rparr>"
    "absent_or_blank (JStr (js ''  ''))" "admitted env0 (post_text (js ''  ''))"
    "\<not> truthy JUndefined"
    by (simp_all add: post_text_simps trim_spaces)
  have b: "req_method (post_text (js ''<>'')) = ''POST''"
    "req_body (post_text (js ''<>'')) = Some \<lparr>body_text = JStr (js ''<>''), body_image = JUndefined\<rparr>"
    "js_trim (js ''<>'') \<noteq> []" "sanitizeInput (JStr (js_trim (js ''<>''))) = []"
    by (simp_all add: post_text_simps trim_markup_only sanitize_markup_only Hi_nonempty)
  have m: "(generate_voice_handler, False) \<in> set text_routes"
    "(server_extract_and_process, True, flash) \<in> set image_routes"
    "(process_text_handler, False) \<in> set sanitizing_text_routes"
    by (simp_all add: text_routes_def image_routes_def sanitizing_text_routes_def)
  have 1: "rejected_early (generate_voice_handler env0 (svc_ok (js ''<>'')) (post_text (js ''  '')))"
    "rejected_early (server_extract_and_process env0 (svc_ok (js ''<>'')) (post_text (js ''  '')))"
    using a m
      C5_required_field [of "post_text (js ''  '')" env0
        "\<lparr>body_text = JStr (js ''  ''), body_image = JUndefined\<rparr>" "svc_ok (js ''<>'')"]
    by fastforce+
  have 2: "rejected_early (process_text_handler env0 (svc_ok (js ''<>'')) (post_text (js ''<>''))) \<and>
    payload (reply (process_text_handler env0 (svc_ok (js ''<>'')) (post_text (js ''  '')))) \<noteq>
     payload (reply (process_text_handler env0 (svc_ok (js ''<>'')) (post_text (js ''<>''))))"
    using a b m
      C5_required_field [of "post_text (js ''<>'')" env0
        "\<lparr>body_text = JStr (js ''<>''), body_image = JUndefined\<rparr>" "svc_ok (js ''<>'')" "js ''<>''"]
    by fastforce
  show ?thesis using a b m 1 2 by simp
qed

text \<open>
  C5 as it was stated fails twice on the image routes. A blank image, a string of one
  space, passes \<^verbatim>\<open>!image\<close>, is sent to the extraction, and the request ends in 200. And
  when the extraction returns \<open><>\<close>, which is sanitized to nothing, the handler that
  sanitized it still calls the generation service and answers 200.
\<close>

theorem C5_blank_image_counterexample:
  "(extract_and_process_handler, False, pro) \<in> set image_routes \<and>
   req_method (post_image (js '' '')) = ''POST'' \<and>
   absent_or_blank (image_field (post_image (js '' ''))) \<and>
   \<not> rejected_early (extract_and_process_handler env0 (svc_ok (js ''Hi'')) (post_image (js '' ''))) \<and>
   status (reply (extract_and_process_handler env0 (svc_ok (js ''Hi'')) (post_image (js '' '')))) = 200 \<and>
   calls (extract_and_process_handler env0 (svc_ok (js ''Hi'')) (post_image (js '' ''))) =
     [VisionCall pro extract_prompt \<lparr>data = js '' '', mimeType = js ''image/png''\<rparr>,
      GenerateCall flash (image_story_prompt (js ''Hi''))] \<and>
   js_trim (js ''<>'') \<noteq> [] \<and> sanitizeInput (JStr (js ''<>'')) = [] \<and>
   status (reply (extract_and_process_handler env0 (svc_ok (js ''<>'')) (post_image png_url))) = 200 \<and>
   calls (extract_and_process_handler env0 (svc_ok (js ''<>'')) (post_image png_url)) =
     [VisionCall pro extract_prompt \<lparr>data = js ''QUJD'', mimeType = js ''image/png''\<rparr>,
      GenerateCall flash (image_story_prompt [])]"
proof -
  have b: "absent_or_blank (image_field (post_image (js '' '')))"
    by (simp add: post_image_simps js_trim_def js_def is_space_def)
  have t: "js_trim (js ''<>'') \<noteq> []" by (simp add: trim_markup_only Hi_nonempty)
  show ?thesis
    using b t
    by (simp add: post_image_runs post_image_simps blank_image_run raw_text_run [OF t]
        sanitize_markup_only image_routes_def catch_generic_def respond_def rejected_early_def)
qed

text \<open>
  C6. On \<^verbatim>\<open>/api/extract-and-process\<close>, when the extraction resolves to empty or
  whitespace-only text, the request ends in a 400 JSON error, the only upstream call is
  the extraction (nothing goes to the story generation), and no error is caught: it is
  not a 500. On the server the request is one that the middleware has let through.
\<close>

theorem C6_blank_extraction:
  assumes "req_method req = ''POST''" "truthy (image_field req)"
    "base64ToGeminiFormat e (image_field req) = Inr part" "js_trim t = []"
  shows "(generateVision svc pro extract_prompt part = Resolved t \<longrightarrow>
            extraction_refused (VisionCall pro extract_prompt part) (extract_and_process_handler e svc req)) \<and>
         (admitted e req \<and> generateVision svc flash extract_prompt part = Resolved t \<longrightarrow>
            extraction_refused (VisionCall flash extract_prompt part) (server_extract_and_process e svc req))"
  using assms
  by (simp add: extract_and_process_handler_def server_extract_and_process_def gate_post
      app_post_post server_front_post blank_extraction_refused)

theorem C6_blank_extraction_witness:
  "req_method (post_image png_url) = ''POST'' \<and>
   truthy (image_field (post_image png_url)) \<and>
   base64ToGeminiFormat env0 (image_field (post_image png_url)) =
     Inr \<lparr>data = js ''QUJD'', mimeType = js ''image/png''\<rparr> \<and>
   js_trim (js ''  '') = [] \<and>
   admitted env0 (post_image png_url) \<and>
   generateVision (svc_ok (js ''  '')) pro extract_prompt
     \<lparr>data = js ''QUJD'', mimeType = js ''image/png''\<rparr> = Resolved (js ''  '') \<and>
   extraction_refused
     (VisionCall pro extract_prompt \<lparr>data = js ''QUJD'', mimeType = js ''image/png''\<rparr>)
     (extract_and_process_handler env0 (svc_ok (js ''  '')) (post_image png_url)) \<and>
   extraction_refused
     (VisionCall flash extract_prompt \<lparr>data = js ''QUJD'', mimeType = js ''image/png''\<rparr>)
     (server_extract_and_process env0 (svc_ok (js ''  '')) (post_image png_url))"
proof -
  have a: "req_method (post_image png_url) = ''POST''"
    "truthy (image_field (post_image png_url))"
    "base64ToGeminiFormat env0 (image_field (post_image png_url)) =
       Inr \<lparr>data = js ''QUJD'', mimeType = js ''image/png''\<rparr>"
    by (simp_all add: post_image_simps gemini_format_png png_url_nonempty)
  have b: "generateVision (svc_ok (js ''  '')) vm extract_prompt
     \<lparr>data = js ''QUJD'', mimeType = js ''image/png''\<rparr> = Resolved (js ''  '')" for vm
    by (simp add: svc_ok_def)
  have c: "admitted env0 (post_image png_url)" by (simp add: post_image_simps)
  show ?thesis
    using a b c trim_spaces
      C6_blank_extraction [OF a(1) a(2) a(3) trim_spaces, of "svc_ok (js ''  '')"]
    by blast
qed

text \<open>
  C8, as amended. On each of the four functions an OPTIONS request is answered with
  status 200, the header \<open>Access-Control-Allow-Headers\<close> and no body, whatever the
  request holds, without any upstream call; a request whose HTTP method is neither POST
  nor OPTIONS is answered with status 405 and a JSON error object. The routes of the
  two server files run on POST only: a request with any other method makes no upstream
  call and is never answered with 405; when the middleware lets it through and it is
  not OPTIONS it gets the framework's 404. OPTIONS is answered by the cross-origin
  middleware without a body: with 200 in the second server file, for an admitted
  origin, and with 204 in \<^verbatim>\<open>backend/index.js\<close>.
\<close>

theorem C8_methods:
  "(\<forall>h \<in> set function_routes.
      (req_method req = ''OPTIONS'' \<longrightarrow> preflight_ok (h e svc req)) \<and>
      (req_method req \<noteq> ''POST'' \<and> req_method req \<noteq> ''OPTIONS'' \<longrightarrow> method_refused (h e svc req))) \<and>
   (\<forall>h \<in> set server_routes.
      req_method req \<noteq> ''POST'' \<longrightarrow>
        calls (h e svc req) = [] \<and> status (reply (h e svc req)) \<noteq> 405 \<and>
        (admitted e req \<and> req_method req \<noteq> ''OPTIONS'' \<longrightarrow> status (reply (h e svc req)) = 404)) \<and>
   (\<forall>h \<in> set gated_server_routes.
      req_method req = ''OPTIONS'' \<and> origin_allowed e req \<longrightarrow>
        status (reply (h e svc req)) = 200 \<and> payload (reply (h e svc req)) = NoBody) \<and>
   (req_method req = ''OPTIONS'' \<longrightarrow>
      status (reply (backend_generate e svc req)) = 204 \<and>
      payload (reply (backend_generate e svc req)) = NoBody)"
  using function_routes_methods [of req e svc] server_routes_methods [of req e svc]
    server_routes_preflight [of req e svc]
  by simp

theorem C8_methods_witness:
  "generate_handler \<in> set function_routes \<and>
   preflight_ok (generate_handler env0 (svc_ok []) ((post_text (js ''Hi''))\<lparr>req_method := ''OPTIONS''\<rparr>)) \<and>
   process_text_handler \<in> set function_routes \<and>
   method_refused (process_text_handler env0 (svc_ok []) ((post_text (js ''Hi''))\<lparr>req_method := ''GET''\<rparr>)) \<and>
   server_process_text \<in> set server_routes \<and>
   admitted env0 ((post_text (js ''Hi''))\<lparr>req_method := ''GET''\<rparr>) \<and>
   calls (server_process_text env0 (svc_ok []) ((post_text (js ''Hi''))\<lparr>req_method := ''GET''\<rparr>)) = [] \<and>
   status (reply (server_process_text env0 (svc_ok []) ((post_text (js ''Hi''))\<lparr>req_method := ''GET''\<rparr>))) = 404 \<and>
   server_generate \<in> set gated_server_routes \<and>
   origin_allowed env0 ((post_text (js ''Hi''))\<lparr>req_method := ''OPTIONS''\<rparr>) \<and>
   status (reply (server_generate env0 (svc_ok []) ((post_text (js ''Hi''))\<lparr>req_method := ''OPTIONS''\<rparr>))) = 200"
proof -
  have r: "generate_handler \<in> set function_routes" "process_text_handler \<in> set function_routes"
    "server_process_text \<in> set server_routes" "server_generate \<in> set gated_server_routes"
    by (simp_all add: function_routes_def server_routes_def gated_server_routes_def)
  have m: "req_method ((post_text (js ''Hi''))\<lparr>req_method := ''OPTIONS''\<rparr>) = ''OPTIONS''"
    "req_method ((post_text (js ''Hi''))\<lparr>req_method := ''GET''\<rparr>) \<noteq> ''POST''"
    "req_method ((post_text (js ''Hi''))\<lparr>req_method := ''GET''\<rparr>) \<noteq> ''OPTIONS''"
    by simp_all
  have a: "admitted env0 ((post_text (js ''Hi''))\<lparr>req_method := ''GET''\<rparr>)"
    "origin_allowed env0 ((post_text (js ''Hi''))\<lparr>req_method := ''OPTIONS''\<rparr>)"
    by (simp_all add: admitted_def origin_allowed_def post_text_def)
  show ?thesis
    using r m a
      C8_methods [of "(post_text (js ''Hi''))\<lparr>req_method := ''OPTIONS''\<rparr>" env0 "svc_ok []"]
      C8_methods [of "(post_text (js ''Hi''))\<lparr>req_method := ''GET''\<rparr>" env0 "svc_ok []"]
    by blast
qed

text \<open>
  C8 as it was stated fails on the server: a GET to \<^verbatim>\<open>/api/process-text\<close> matches no
  route and gets 404, not 405, and \<^verbatim>\<open>backend/index.js\<close> answers OPTIONS with 204.
\<close>

theorem C8_server_methods_counterexample:
  "server_process_text \<in> set server_routes \<and>
   req_method ((post_text (js ''Hi''))\<lparr>req_method := ''GET''\<rparr>) = ''GET'' \<and>
   admitted env0 ((post_text (js ''Hi''))\<lparr>req_method := ''GET''\<rparr>) \<and>
   status (reply (server_process_text env0 (svc_ok []) ((post_text (js ''Hi''))\<lparr>req_method := ''GET''\<rparr>))) = 404 \<and>
   \<not> method_refused (server_process_text env0 (svc_ok []) ((post_text (js ''Hi''))\<lparr>req_method := ''GET''\<rparr>)) \<and>
   backend_generate \<in> set server_routes \<and>
   req_method ((post_text (js ''Hi''))\<lparr>req_method := ''OPTIONS''\<rparr>) = ''OPTIONS'' \<and>
   status (reply (backend_generate env0 (svc_ok []) ((post_text (js ''Hi''))\<lparr>req_method := ''OPTIONS''\<rparr>))) = 204"
  by (simp add: server_routes_def gated_server_routes_def server_process_text_def backend_generate_def
      server_front_def backend_front_def app_post_def origin_allowed_def admitted_def post_text_def
      method_refused_def)

text \<open>
  C10. In every successful \<^verbatim>\<open>/api/extract-and-process\<close> response (a 200 answer to a
  POST) the field \<open>extractedText\<close> is the text exactly as the extraction returned it,
  while the one prompt sent to the story generation is the fixed wording around the
  sanitized copy of that text, between double quotes. So for any text that is not
  blank, whatever characters and however many it holds, there is a run that returns it
  unchanged and sends only its sanitized copy on.
\<close>

theorem C10_extracted_text_is_raw:
  "(req_method req = ''POST'' \<and> status (reply (extract_and_process_handler e svc req)) = 200 \<longrightarrow>
      (\<exists>part t story.
         generateVision svc pro extract_prompt part = Resolved t \<and>
         payload (reply (extract_and_process_handler e svc req)) =
           Json [(''extractedText'', t), (''processedStory'', story)] \<and>
         calls (extract_and_process_handler e svc req) =
           [VisionCall pro extract_prompt part,
            GenerateCall flash
              (js ''Write a very short, engaging story based on this idea extracted from an image: '' @
               [0x22] @ sanitizeInput (JStr t) @ [0x22] @ prompt_tail)])) \<and>
   (req_method req = ''POST'' \<and> status (reply (server_extract_and_process e svc req)) = 200 \<longrightarrow>
      (\<exists>part t story.
         generateVision svc flash extract_prompt part = Resolved t \<and>
         payload (reply (server_extract_and_process e svc req)) =
           Json [(''extractedText'', t), (''processedStory'', story)] \<and>
         calls (server_extract_and_process e svc req) =
           [VisionCall flash extract_prompt part,
            GenerateCall flash
              (js ''Write a very short, engaging story based on this idea extracted from an image: '' @
               [0x22] @ sanitizeInput (JStr t) @ [0x22] @ prompt_tail)])) \<and>
   (js_trim x \<noteq> [] \<longrightarrow>
      reply (extract_and_process_handler env0 (svc_ok x) (post_image png_url)) =
        respond (restricted_cors env0 (post_image png_url)) 200
          [(''extractedText'', x), (''processedStory'', js ''Hi.'')] \<and>
      calls (extract_and_process_handler env0 (svc_ok x) (post_image png_url)) =
        [VisionCall pro extract_prompt \<lparr>data = js ''QUJD'', mimeType = js ''image/png''\<rparr>,
         GenerateCall flash
           (js ''Write a very short, engaging story based on this idea extracted from an image: '' @
            [0x22] @ sanitizeInput (JStr x) @ [0x22] @ prompt_tail)])"
proof (intro conjI impI)
  assume a: "req_method req = ''POST'' \<and> status (reply (extract_and_process_handler e svc req)) = 200"
  have eq: "extract_and_process_handler e svc req =
      catch_generic (restricted_cors e req) (extract_and_process_try pro e svc req)"
    using a by (simp add: extract_and_process_handler_def gate_post)
  show "\<exists>part t story.
         generateVision svc pro extract_prompt part = Resolved t \<and>
         payload (reply (extract_and_process_handler e svc req)) =
           Json [(''extractedText'', t), (''processedStory'', story)] \<and>
         calls (extract_and_process_handler e svc req) =
           [VisionCall pro extract_prompt part,
            GenerateCall flash
              (js ''Write a very short, engaging story based on this idea extracted from an image: '' @
               [0x22] @ sanitizeInput (JStr t) @ [0x22] @ prompt_tail)]"
    using a extract_success [of "restricted_cors e req" pro e svc req]
    unfolding eq image_story_prompt_text by blast
next
  assume a: "req_method req = ''POST'' \<and> status (reply (server_extract_and_process e svc req)) = 200"
  have "server_front e req (app_post ''/api/extract-and-process'' req
          (catch_generic [] (extract_and_process_try flash e svc req))) =
        app_post ''/api/extract-and-process'' req
          (catch_generic [] (extract_and_process_try flash e svc req))"
    using a by (intro server_front_200_post) (simp_all add: server_extract_and_process_def)
  then have eq: "server_extract_and_process e svc req =
      catch_generic [] (extract_and_process_try flash e svc req)"
    using a by (simp add: server_extract_and_process_def app_post_post)
  show "\<exists>part t story.
         generateVision svc flash extract_prompt part = Resolved t \<and>
         payload (reply (server_extract_and_process e svc req)) =
           Json [(''extractedText'', t), (''processedStory'', story)] \<and>
         calls (server_extract_and_process e svc req) =
           [VisionCall flash extract_prompt part,
            GenerateCall flash
              (js ''Write a very short, engaging story based on this idea extracted from an image: '' @
               [0x22] @ sanitizeInput (JStr t) @ [0x22] @ prompt_tail)]"
    using a extract_success [of "[]" flash e svc req]
    unfolding eq image_story_prompt_text by blast
next
  assume x: "js_trim x \<noteq> []"
  show "reply (extract_and_process_handler env0 (svc_ok x) (post_image png_url)) =
        respond (restricted_cors env0 (post_image png_url)) 200
          [(''extractedText'', x), (''processedStory'', js ''Hi.'')]"
    by (simp add: post_image_runs raw_text_run [OF x] catch_generic_def)
  show "calls (extract_and_process_handler env0 (svc_ok x) (post_image png_url)) =
        [VisionCall pro extract_prompt \<lparr>data = js ''QUJD'', mimeType = js ''image/png''\<rparr>,
         GenerateCall flash
           (js ''Write a very short, engaging story based on this idea extracted from an image: '' @
            [0x22] @ sanitizeInput (JStr x) @ [0x22] @ prompt_tail)]"
    by (simp add: post_image_runs raw_text_run [OF x] catch_generic_def image_story_prompt_text)
qed

theorem C10_extracted_text_is_raw_witness:
  "req_method (post_image png_url) = ''POST'' \<and>
   status (reply (extract_and_process_handler env0 (svc_ok (js ''<b>Hi'')) (post_image png_url))) = 200 \<and>
   js_trim (js ''<b>Hi'') \<noteq> [] \<and>
   payload (reply (extract_and_process_handler env0 (svc_ok (js ''<b>Hi'')) (post_image png_url))) =
     Json [(''extractedText'', js ''<b>Hi''), (''processedStory'', js ''Hi.'')] \<and>
   calls (extract_and_process_handler env0 (svc_ok (js ''<b>Hi'')) (post_image png_url)) =
     [VisionCall pro extract_prompt \<lparr>data = js ''QUJD'', mimeType = js ''image/png''\<rparr>,
      GenerateCall flash
        (js ''Write a very short, engaging story based on this idea extracted from an image: '' @
         [0x22] @ js ''bHi'' @ [0x22] @ prompt_tail)]"
proof -
  have t: "js_trim (js ''<b>Hi'') \<noteq> []"
    by (simp add: trim_markup_Hi Hi_nonempty)
  have m: "req_method (post_image png_url) = ''POST''" by (simp add: post_image_simps)
  show ?thesis
    using t m
      C10_extracted_text_is_raw [of "post_image png_url" env0 "svc_ok (js ''<b>Hi'')" "js ''<b>Hi''"]
    by (simp add: sanitize_markup_Hi respond_def)
qed

end
